theory Spec2Isabelle
  imports Main "HOL-Library.Char_ord" "HOL-Library.List_Lexorder"
begin

section \<open>Exceptions\<close>

text \<open>
  Every exception the modelled Python code can raise is a value of this type; a function
  that may raise returns \<open>error + 'a\<close> with \<open>Inl\<close> for the raised exception.
\<close>

datatype error =
  KeyError | AssertionError | ValueError | TypeError | PaginationError | StopIteration

text \<open>
  An exception raised by code that is a parameter here (a serializer, the body of a
  workflow): its class, \<open>TypeError\<close> standing for that class and its subclasses, and its
  message, what \<open>str(e)\<close> is.
\<close>

type_synonym exc = "error \<times> string"

section \<open>Key mangling (flowy/backend/swf.py)\<close>

text \<open>
  Python names with a leading underscore lose it: \<open>_timer_key\<close> is \<open>timer_key\<close>,
  \<open>_timer_call_key\<close> is \<open>timer_call_key\<close>, and so on. The random token of
  \<open>uuid.uuid4()\<close> is an explicit argument.
\<close>

definition endswith :: "string \<Rightarrow> string \<Rightarrow> bool" where
  "endswith s suffix =
     (length suffix \<le> length s \<and> drop (length s - length suffix) s = suffix)"

text \<open>\<^verbatim>\<open>'%s:t' % call_key\<close>\<close>

definition timer_key :: "string \<Rightarrow> string" where
  "timer_key call_key = call_key @ '':t''"

text \<open>\<^verbatim>\<open>assert timer_key.endswith(':t'); return timer_key[:-2]\<close>\<close>

definition timer_call_key :: "string \<Rightarrow> error + string" where
  "timer_call_key tk =
     (if endswith tk '':t'' then Inr (take (length tk - 2) tk) else Inl AssertionError)"

text \<open>\<^verbatim>\<open>str.split(sep)\<close> for a one-character separator: never the empty list.\<close>

fun py_split :: "char \<Rightarrow> string \<Rightarrow> string list" where
  "py_split sep [] = [[]]"
| "py_split sep (c # cs) =
     (if c = sep then [] # py_split sep cs
      else (case py_split sep cs of
              [] \<Rightarrow> [[c]]
            | w # ws \<Rightarrow> (c # w) # ws))"

text \<open>\<^verbatim>\<open>s.rsplit(sep, 1)\<close>: split once, at the last separator.\<close>

definition py_rsplit1 :: "char \<Rightarrow> string \<Rightarrow> string list" where
  "py_rsplit1 sep s =
     (if sep \<in> set s
      then [rev (tl (dropWhile (\<lambda>c. c \<noteq> sep) (rev s))), rev (takeWhile (\<lambda>c. c \<noteq> sep) (rev s))]
      else [s])"

text \<open>\<^verbatim>\<open>'%s:%s' % (uuid.uuid4(), call_key)\<close>\<close>

definition subworkflow_key :: "string \<Rightarrow> string \<Rightarrow> string" where
  "subworkflow_key uuid4 call_key = uuid4 @ '':'' @ call_key"

text \<open>\<^verbatim>\<open>subworkflow_key.split(':')[-1]\<close>\<close>

definition subworkflow_call_key :: "string \<Rightarrow> string" where
  "subworkflow_call_key k = last (py_split CHR '':'' k)"

text \<open>\<^verbatim>\<open>workflow_id.rsplit('-', 1)[-1]\<close>\<close>

definition subworkflow_id :: "string \<Rightarrow> string" where
  "subworkflow_id workflow_id = last (py_rsplit1 CHR ''-'' workflow_id)"

section \<open>History events\<close>

text \<open>
  An event of the history is a JSON object with an \<open>eventType\<close> and an attribute
  subobject. Each constructor carries the fields \<open>load_events\<close> and
  \<open>poll_next_decision\<close> read from an event of that type; an event of any other type is
  \<open>OtherEvent\<close> with its type name. An event that lacks one of the fields read, on which
  the code raises KeyError, is not represented.
\<close>

record wesea =
  taskList_name :: string
  taskStartToCloseTimeout :: string
  executionStartToCloseTimeout :: string
  tagList :: "string list option"
  childPolicy :: string
  workflowType_name :: string
  workflowType_version :: string
  wesea_input :: string

datatype event =
    WorkflowExecutionStarted wesea
  | ActivityTaskScheduled int string
  | ActivityTaskCompleted int string
  | ActivityTaskFailed int string
  | ActivityTaskTimedOut int
  | ScheduleActivityTaskFailed string string
  | StartChildWorkflowExecutionInitiated string
  | ChildWorkflowExecutionCompleted string string
  | ChildWorkflowExecutionFailed string string
  | ChildWorkflowExecutionTimedOut string
  | StartChildWorkflowExecutionFailed string string
  | TimerStarted string
  | TimerFired string
  | OtherEvent string

text \<open>
  The arguments are, in order: \<open>ActivityTaskScheduled eventId activityId\<close>;
  \<open>ActivityTaskCompleted scheduledEventId result\<close>;
  \<open>ActivityTaskFailed scheduledEventId reason\<close>;
  \<open>ActivityTaskTimedOut scheduledEventId\<close>;
  \<open>ScheduleActivityTaskFailed activityId cause\<close>;
  \<open>StartChildWorkflowExecutionInitiated workflowId\<close>;
  \<open>ChildWorkflowExecutionCompleted workflowId result\<close>;
  \<open>ChildWorkflowExecutionFailed workflowId reason\<close>;
  \<open>ChildWorkflowExecutionTimedOut workflowId\<close>;
  \<open>StartChildWorkflowExecutionFailed workflowId cause\<close>;
  \<open>TimerStarted timerId\<close>; \<open>TimerFired timerId\<close>.
\<close>

section \<open>History folding: load_events (flowy/backend/swf.py)\<close>

text \<open>
  The snapshot is the tuple \<open>load_events\<close> returns; \<open>event2call\<close> is its sixth local
  variable. A result is \<open>Some bytes\<close>, and \<open>None\<close> is Python's \<open>None\<close>, stored for
  a fired timer.
\<close>

record snapshot =
  running :: "string set"
  timedout :: "string set"
  results :: "string \<rightharpoonup> string option"
  errors :: "string \<rightharpoonup> string"
  order :: "string list"

record history = snapshot +
  event2call :: "int \<rightharpoonup> string"

definition empty_history :: history where
  "empty_history =
     \<lparr>running = {}, timedout = {}, results = Map.empty, errors = Map.empty, order = [],
      event2call = Map.empty\<rparr>"

text \<open>
  The three ways a call leaves \<open>running\<close>: \<^verbatim>\<open>running.remove(eid)\<close> raises KeyError
  when \<open>eid\<close> is not a member, before anything else is written.
\<close>

definition completed :: "history \<Rightarrow> string \<Rightarrow> string \<Rightarrow> error + history" where
  "completed h eid result =
     (if eid \<in> running h
      then Inr (h\<lparr>running := running h - {eid},
                 results := (results h)(eid \<mapsto> Some result),
                 order := order h @ [eid]\<rparr>)
      else Inl KeyError)"

definition failed :: "history \<Rightarrow> string \<Rightarrow> string \<Rightarrow> error + history" where
  "failed h eid reason =
     (if eid \<in> running h
      then Inr (h\<lparr>running := running h - {eid},
                 errors := (errors h)(eid \<mapsto> reason),
                 order := order h @ [eid]\<rparr>)
      else Inl KeyError)"

definition timed_out :: "history \<Rightarrow> string \<Rightarrow> error + history" where
  "timed_out h eid =
     (if eid \<in> running h
      then Inr (h\<lparr>running := running h - {eid},
                 timedout := insert eid (timedout h),
                 order := order h @ [eid]\<rparr>)
      else Inl KeyError)"

text \<open>A synchronous rejection: the call never enters \<open>running\<close>.\<close>

definition rejected :: "history \<Rightarrow> string \<Rightarrow> string \<Rightarrow> history" where
  "rejected h eid reason =
     h\<lparr>errors := (errors h)(eid \<mapsto> reason), order := order h @ [eid]\<rparr>"

text \<open>One iteration of the \<open>for event in event_iter\<close> loop.\<close>

fun load_event :: "history \<Rightarrow> event \<Rightarrow> error + history" where
  "load_event h (ActivityTaskScheduled event_id eid) =
     Inr (h\<lparr>event2call := (event2call h)(event_id \<mapsto> eid),
            running := insert eid (running h)\<rparr>)"
| "load_event h (ActivityTaskCompleted scheduled_event_id result) =
     (case event2call h scheduled_event_id of
        None \<Rightarrow> Inl KeyError
      | Some eid \<Rightarrow> completed h eid result)"
| "load_event h (ActivityTaskFailed scheduled_event_id reason) =
     (case event2call h scheduled_event_id of
        None \<Rightarrow> Inl KeyError
      | Some eid \<Rightarrow> failed h eid reason)"
| "load_event h (ActivityTaskTimedOut scheduled_event_id) =
     (case event2call h scheduled_event_id of
        None \<Rightarrow> Inl KeyError
      | Some eid \<Rightarrow> timed_out h eid)"
| "load_event h (ScheduleActivityTaskFailed eid reason) = Inr (rejected h eid reason)"
| "load_event h (StartChildWorkflowExecutionInitiated workflow_id) =
     Inr (h\<lparr>running := insert (subworkflow_call_key workflow_id) (running h)\<rparr>)"
| "load_event h (ChildWorkflowExecutionCompleted workflow_id result) =
     completed h (subworkflow_call_key workflow_id) result"
| "load_event h (ChildWorkflowExecutionFailed workflow_id reason) =
     failed h (subworkflow_call_key workflow_id) reason"
| "load_event h (ChildWorkflowExecutionTimedOut workflow_id) =
     timed_out h (subworkflow_call_key workflow_id)"
| "load_event h (StartChildWorkflowExecutionFailed workflow_id reason) =
     Inr (rejected h (subworkflow_call_key workflow_id) reason)"
| "load_event h (TimerStarted eid) =
     (case timer_call_key eid of
        Inl e \<Rightarrow> Inl e
      | Inr k \<Rightarrow> Inr (h\<lparr>running := insert k (running h)\<rparr>))"
| "load_event h (TimerFired eid) =
     (case timer_call_key eid of
        Inl e \<Rightarrow> Inl e
      | Inr k \<Rightarrow>
          if k \<in> running h
          then Inr (h\<lparr>running := running h - {k}, results := (results h)(eid \<mapsto> None)\<rparr>)
          else Inl KeyError)"
| "load_event h (WorkflowExecutionStarted a) = Inr h"
| "load_event h (OtherEvent e_type) = Inr h"

text \<open>The loop over the events, stopping at the first exception.\<close>

fun load_events_from :: "history \<Rightarrow> event list \<Rightarrow> error + history" where
  "load_events_from h [] = Inr h"
| "load_events_from h (event # event_iter) =
     (case load_event h event of
        Inl e \<Rightarrow> Inl e
      | Inr h' \<Rightarrow> load_events_from h' event_iter)"

definition load_events :: "event list \<Rightarrow> error + snapshot" where
  "load_events event_iter =
     (case load_events_from empty_history event_iter of
        Inl e \<Rightarrow> Inl e
      | Inr h \<Rightarrow> Inr (snapshot.truncate h))"

section \<open>Decisions\<close>

text \<open>
  The decisions a \<open>Layer1Decisions\<close> object collects in its \<open>_data\<close> list. The
  arguments are, in order:
  \<open>StartTimer start_to_fire_timeout timer_id\<close>;
  \<open>ScheduleActivityTask activity_id name version options input\<close>, the options being
  the timeouts and the task list;
  \<open>StartChildWorkflowExecution name version workflow_id options input\<close>;
  \<open>FailWorkflowExecution reason\<close>; \<open>CompleteWorkflowExecution result\<close>;
  \<open>ContinueAsNewWorkflowExecution options input tag_list child_policy\<close>.
\<close>

datatype decision =
    StartTimer string string
  | ScheduleActivityTask string string string "string option list" string
  | StartChildWorkflowExecution string string string "string option list" string
  | FailWorkflowExecution string
  | CompleteWorkflowExecution string
  | ContinueAsNewWorkflowExecution "string option list" string "string list option" "string option"

fun scheduling :: "decision \<Rightarrow> bool" where
  "scheduling (StartTimer d t) = True"
| "scheduling (ScheduleActivityTask i n v opts inp) = True"
| "scheduling (StartChildWorkflowExecution n v i opts inp) = True"
| "scheduling d = False"

fun terminal :: "decision \<Rightarrow> bool" where
  "terminal (FailWorkflowExecution r) = True"
| "terminal (CompleteWorkflowExecution r) = True"
| "terminal (ContinueAsNewWorkflowExecution opts inp tags cp) = True"
| "terminal d = False"

section \<open>Printing integers\<close>

text \<open>\<^verbatim>\<open>str(n)\<close> for an integer: its decimal digits, after a minus sign when negative.\<close>

definition digit_char :: "nat \<Rightarrow> char" where
  "digit_char d = ''0123456789'' ! d"

fun str_nat :: "nat \<Rightarrow> string" where
  "str_nat n = (if n < 10 then [digit_char n] else str_nat (n div 10) @ [digit_char (n mod 10)])"

declare str_nat.simps [simp del]

definition str_int :: "int \<Rightarrow> string" where
  "str_int i = (if i < 0 then CHR ''-'' # str_nat (nat (- i)) else str_nat (nat i))"

section \<open>The service client\<close>

text \<open>
  The client (\<open>boto.swf.layer1.Layer1\<close>) is outside the code at hand. It is a script of
  what the service answers, and a log of what it was asked: \<open>poll_script\<close> holds the
  answers of the successive calls of \<open>poll_for_decision_task\<close>, each a response page or
  a raised \<open>SWFResponseError\<close>, and a call on an exhausted script never returns (it is
  \<open>None\<close>); \<open>respond_ok ds\<close> is true when \<open>respond_decision_task_completed\<close>
  returns for the decisions \<open>ds\<close> and false when it raises \<open>SWFResponseError\<close>;
  \<open>poll_requests\<close> logs the domain, task list, identity and page token of every poll,
  and \<open>responded\<close> the task token and decisions of every response, in order.
\<close>

record page =
  taskToken :: "string option"
  events :: "event list"
  nextPageToken :: "string option"

datatype response = SWFResponseError | Response page

type_synonym request = "string \<times> string \<times> string option \<times> string option"

record layer1 =
  poll_script :: "response list"
  respond_ok :: "decision list \<Rightarrow> bool"
  poll_requests :: "request list"
  responded :: "(string \<times> decision list) list"

definition poll_for_decision_task ::
  "layer1 \<Rightarrow> string \<Rightarrow> string \<Rightarrow> string option \<Rightarrow> string option \<Rightarrow> (response \<times> layer1) option" where
  "poll_for_decision_task l domain task_list identity next_page_token =
     (case poll_script l of
        [] \<Rightarrow> None
      | r # rs \<Rightarrow>
          Some (r, l\<lparr>poll_script := rs,
                     poll_requests :=
                       poll_requests l @ [(domain, task_list, identity, next_page_token)]\<rparr>))"

definition respond_decision_task_completed ::
  "layer1 \<Rightarrow> string \<Rightarrow> decision list \<Rightarrow> bool \<times> layer1" where
  "respond_decision_task_completed l task_token ds =
     (respond_ok l ds, l\<lparr>responded := responded l @ [(task_token, ds)]\<rparr>)"

text \<open>The decisions of the responses sent to the client \<open>l'\<close> since it was \<open>l\<close>.\<close>

definition sent_since :: "layer1 \<Rightarrow> layer1 \<Rightarrow> decision list list" where
  "sent_since l l' = map snd (drop (length (responded l)) (responded l'))"

section \<open>The decision scheduler: SWFScheduler (flowy/task.py)\<close>

text \<open>
  The task specifications of \<open>flowy.spec\<close> are not part of the sources at hand; a
  scheduler only calls their \<open>schedule\<close> and \<open>restart\<close> methods.
\<close>

datatype spec =
    ActivitySpec string string "string option list"
  | WorkflowSpec string string "string option list"

text \<open>
  Modelled from the spec: \<open>spec.schedule(decisions, call_id, input)\<close> of \<open>flowy.spec\<close>,
  which is missing. It appends the one scheduling decision of its kind
  (schedule-activity for an activity, start-child-workflow for a workflow) with the given
  id and input and the descriptor's name, version and options.
\<close>

fun spec_schedule :: "spec \<Rightarrow> decision list \<Rightarrow> string \<Rightarrow> string \<Rightarrow> decision list" where
  "spec_schedule (ActivitySpec name version opts) ds call_id inp =
     ds @ [ScheduleActivityTask call_id name version opts inp]"
| "spec_schedule (WorkflowSpec name version opts) ds call_id inp =
     ds @ [StartChildWorkflowExecution name version call_id opts inp]"

text \<open>
  Modelled from the spec: \<open>spec.restart(decisions, input, tags)\<close> of \<open>flowy.spec\<close>, which
  is missing. It appends one continue-as-new decision with the workflow's own options,
  the given input and tags.
\<close>

fun spec_restart :: "spec \<Rightarrow> decision list \<Rightarrow> string \<Rightarrow> string list option \<Rightarrow> decision list" where
  "spec_restart (ActivitySpec name version opts) ds inp tags =
     ds @ [ContinueAsNewWorkflowExecution opts inp tags None]"
| "spec_restart (WorkflowSpec name version opts) ds inp tags =
     ds @ [ContinueAsNewWorkflowExecution opts inp tags None]"

text \<open>
  The attributes \<open>_swf_client\<close>, \<open>_token\<close>, \<open>_rate_limit\<close>, \<open>_decisions\<close> and
  \<open>_closed\<close> of an \<open>SWFScheduler\<close>.
\<close>

record scheduler =
  sch_swf_client :: layer1
  sch_token :: string
  sch_rate_limit :: int
  sch_decisions :: "decision list"
  sch_closed :: bool

definition SWFScheduler :: "layer1 \<Rightarrow> string \<Rightarrow> int \<Rightarrow> scheduler" where
  "SWFScheduler swf_client token rate_limit =
     \<lparr>sch_swf_client = swf_client, sch_token = token, sch_rate_limit = rate_limit,
      sch_decisions = [], sch_closed = False\<rparr>"

text \<open>
  \<open>flush\<close> returns false when the scheduler is closed and when the client raises
  \<open>SWFResponseError\<close>, which is logged and swallowed.
\<close>

definition flush :: "scheduler \<Rightarrow> bool \<times> scheduler" where
  "flush s =
     (if sch_closed s then (False, s)
      else (case respond_decision_task_completed (sch_swf_client s) (sch_token s)
                   (sch_decisions s) of
              (ok, l) \<Rightarrow> (ok, s\<lparr>sch_closed := True, sch_swf_client := l\<rparr>)))"

definition restart :: "scheduler \<Rightarrow> spec \<Rightarrow> string \<Rightarrow> string list option \<Rightarrow> bool \<times> scheduler" where
  "restart s sp inp tags = flush (s\<lparr>sch_decisions := spec_restart sp [] inp tags\<rparr>)"

text \<open>\<^verbatim>\<open>reason=str(reason)[:256]\<close>\<close>

definition fail :: "scheduler \<Rightarrow> string \<Rightarrow> bool \<times> scheduler" where
  "fail s reason = flush (s\<lparr>sch_decisions := [FailWorkflowExecution (take 256 reason)]\<rparr>)"

definition complete :: "scheduler \<Rightarrow> string \<Rightarrow> bool \<times> scheduler" where
  "complete s result = flush (s\<lparr>sch_decisions := [CompleteWorkflowExecution result]\<rparr>)"

definition schedule_timer :: "scheduler \<Rightarrow> int \<Rightarrow> int \<Rightarrow> scheduler" where
  "schedule_timer s delay call_id =
     (if int (length (sch_decisions s)) < sch_rate_limit s
      then s\<lparr>sch_decisions := sch_decisions s @ [StartTimer (str_int delay) (str_int call_id)]\<rparr>
      else s)"

definition schedule_activity :: "scheduler \<Rightarrow> spec \<Rightarrow> int \<Rightarrow> string \<Rightarrow> scheduler" where
  "schedule_activity s sp call_id inp =
     (if int (length (sch_decisions s)) < sch_rate_limit s
      then s\<lparr>sch_decisions := spec_schedule sp (sch_decisions s) (str_int call_id) inp\<rparr>
      else s)"

text \<open>\<^verbatim>\<open>call_id = '%s-%s' % (uuid.uuid4(), call_id)\<close>\<close>

definition schedule_workflow :: "string \<Rightarrow> scheduler \<Rightarrow> spec \<Rightarrow> int \<Rightarrow> string \<Rightarrow> scheduler" where
  "schedule_workflow uuid4 s sp call_id inp =
     (if int (length (sch_decisions s)) < sch_rate_limit s
      then s\<lparr>sch_decisions :=
               spec_schedule sp (sch_decisions s) (uuid4 @ ''-'' @ str_int call_id) inp\<rparr>
      else s)"

section \<open>The decision runtime: _SWFWorkflow and SWFWorkflow (flowy/task.py)\<close>

text \<open>\<^verbatim>\<open>_TIMEDOUT, _RUNNING, _ERROR, _FOUND, _NOTFOUND = range(5)\<close>\<close>

datatype call_state = TIMEDOUT | RUNNING | ERROR | FOUND | NOTFOUND

text \<open>
  The attributes of a \<open>_SWFWorkflow\<close>, \<open>_x\<close> being \<open>wf_x\<close>. Call ids are integers; the
  constructor's \<open>int(k)\<close> of every key is taken as done. A value of \<open>wf_results\<close> is
  \<open>Some bytes\<close> or Python's \<open>None\<close>.
\<close>

record workflow =
  wf_scheduler :: scheduler
  wf_input :: string
  wf_token :: string
  wf_running :: "int set"
  wf_timedout :: "int set"
  wf_results :: "int \<rightharpoonup> string option"
  wf_errors :: "int \<rightharpoonup> string"
  wf_order :: "int list"
  wf_spec :: spec
  wf_tags :: "string list option"
  wf_scheduled :: bool
  wf_call_id :: int

definition SWFWorkflow_base ::
  "scheduler \<Rightarrow> string \<Rightarrow> string \<Rightarrow> int list \<Rightarrow> int list \<Rightarrow> (int \<rightharpoonup> string option) \<Rightarrow>
   (int \<rightharpoonup> string) \<Rightarrow> int list \<Rightarrow> spec \<Rightarrow> string list option \<Rightarrow> workflow" where
  "SWFWorkflow_base sch inp token running0 timedout0 results0 errors0 order0 sp tags =
     \<lparr>wf_scheduler = sch, wf_input = inp, wf_token = token, wf_running = set running0,
      wf_timedout = set timedout0, wf_results = results0, wf_errors = errors0,
      wf_order = order0, wf_spec = sp, wf_tags = tags, wf_scheduled = False, wf_call_id = 0\<rparr>"

text \<open>\<^verbatim>\<open>s = SWFScheduler(swf_client, token, rate_limit=64 - len(running))\<close>\<close>

definition SWFWorkflow ::
  "layer1 \<Rightarrow> string \<Rightarrow> string \<Rightarrow> int list \<Rightarrow> int list \<Rightarrow>
   (int \<rightharpoonup> string option) \<Rightarrow> (int \<rightharpoonup> string) \<Rightarrow> int list \<Rightarrow> spec \<Rightarrow> string list option \<Rightarrow>
   workflow" where
  "SWFWorkflow swf_client inp token running0 timedout0 results0 errors0 order0 sp tags =
     SWFWorkflow_base (SWFScheduler swf_client token (64 - int (length running0)))
       inp token running0 timedout0 results0 errors0 order0 sp tags"

text \<open>\<^verbatim>\<open>list.index(x)\<close>: the first position of \<open>x\<close>, or ValueError.\<close>

fun py_index :: "int list \<Rightarrow> int \<Rightarrow> error + nat" where
  "py_index [] x = Inl ValueError"
| "py_index (y # ys) x =
     (if y = x then Inr 0
      else (case py_index ys x of Inl e \<Rightarrow> Inl e | Inr i \<Rightarrow> Inr (Suc i)))"

text \<open>
  What a search returns: the state, a value (\<open>None\<close>, the reason of an error, or the
  stored result) and a position in \<open>order\<close> (or \<open>None\<close>).
\<close>

type_synonym found = "call_state \<times> string option \<times> nat option"

definition search_timer :: "workflow \<Rightarrow> call_state \<times> workflow" where
  "search_timer w =
     (if wf_results w (wf_call_id w) \<noteq> None then (FOUND, w\<lparr>wf_call_id := wf_call_id w + 1\<rparr>)
      else if wf_call_id w \<in> wf_running w then (RUNNING, w)
      else (NOTFOUND, w))"

text \<open>
  The loop \<^verbatim>\<open>for self._call_id in range(...)\<close> over the ids still to visit; the first
  equation is the statement after the loop, reached when the range is exhausted.
\<close>

fun search_result_loop :: "workflow \<Rightarrow> int list \<Rightarrow> (error + found) \<times> workflow" where
  "search_result_loop w [] =
     (case py_index (wf_order w) (wf_call_id w) of
        Inl e \<Rightarrow> (Inl e, w)
      | Inr i \<Rightarrow> (Inr (TIMEDOUT, None, Some i), w))"
| "search_result_loop w (c # cs) =
     (let w1 = w\<lparr>wf_call_id := c\<rparr> in
      if c \<in> wf_timedout w1 then search_result_loop w1 cs
      else if c \<in> wf_running w1 then (Inr (RUNNING, None, None), w1)
      else (case wf_errors w1 c of
              Some reason \<Rightarrow>
                (case py_index (wf_order w1) c of
                   Inl e \<Rightarrow> (Inl e, w1)
                 | Inr i \<Rightarrow> (Inr (ERROR, Some reason, Some i), w1))
            | None \<Rightarrow>
                (case wf_results w1 c of
                   Some result \<Rightarrow>
                     (case py_index (wf_order w1) c of
                        Inl e \<Rightarrow> (Inl e, w1)
                      | Inr i \<Rightarrow> (Inr (FOUND, result, Some i), w1))
                 | None \<Rightarrow> (Inr (NOTFOUND, None, None), w1))))"

text \<open>\<^verbatim>\<open>range(self._call_id, self._call_id + retry + 1)\<close>\<close>

definition search_result :: "workflow \<Rightarrow> int \<Rightarrow> (error + found) \<times> workflow" where
  "search_result w retry = search_result_loop w [wf_call_id w..wf_call_id w + retry]"

definition reserve_call_ids :: "workflow \<Rightarrow> int \<Rightarrow> int \<Rightarrow> int \<Rightarrow> workflow" where
  "reserve_call_ids w call_id delay retry =
     w\<lparr>wf_call_id := 1 + call_id + (if delay > 0 then 1 else 0) + retry\<rparr>"

text \<open>
  The body of the \<open>try\<close> of \<open>_schedule\<close>, from the search of the result on; \<open>sched\<close> is
  the bound method of the scheduler that \<open>_schedule_activity\<close> or
  \<open>_schedule_workflow\<close> passes.
\<close>

definition schedule_result ::
  "workflow \<Rightarrow> spec \<Rightarrow> string \<Rightarrow> int \<Rightarrow> (scheduler \<Rightarrow> spec \<Rightarrow> int \<Rightarrow> string \<Rightarrow> scheduler) \<Rightarrow>
   (error + found) \<times> workflow" where
  "schedule_result w sp inp retry sched =
     (case search_result w retry of
        (Inl e, w1) \<Rightarrow> (Inl e, w1)
      | (Inr (st, v, ord), w1) \<Rightarrow>
          if st = NOTFOUND
          then (Inr (RUNNING, None, None),
                w1\<lparr>wf_scheduled := True,
                   wf_scheduler := sched (wf_scheduler w1) sp (wf_call_id w1) inp\<rparr>)
          else (Inr (st, v, ord), w1))"

text \<open>The body of the \<open>try\<close> of \<open>_schedule\<close>.\<close>

definition schedule_try ::
  "workflow \<Rightarrow> spec \<Rightarrow> string \<Rightarrow> int \<Rightarrow> int \<Rightarrow>
   (scheduler \<Rightarrow> spec \<Rightarrow> int \<Rightarrow> string \<Rightarrow> scheduler) \<Rightarrow> (error + found) \<times> workflow" where
  "schedule_try w sp inp retry delay sched =
     (if delay \<noteq> 0
      then (case search_timer w of
              (FOUND, w1) \<Rightarrow> schedule_result w1 sp inp retry sched
            | (NOTFOUND, w1) \<Rightarrow>
                (Inr (RUNNING, None, None),
                 w1\<lparr>wf_scheduled := True,
                    wf_scheduler := schedule_timer (wf_scheduler w1) delay (wf_call_id w1)\<rparr>)
            | (st, w1) \<Rightarrow> (Inr (st, None, None), w1))
      else schedule_result w sp inp retry sched)"

text \<open>\<open>_schedule\<close>: the \<open>finally\<close> clause runs on every way out of the \<open>try\<close>.\<close>

definition schedule ::
  "workflow \<Rightarrow> spec \<Rightarrow> string \<Rightarrow> int \<Rightarrow> int \<Rightarrow>
   (scheduler \<Rightarrow> spec \<Rightarrow> int \<Rightarrow> string \<Rightarrow> scheduler) \<Rightarrow> (error + found) \<times> workflow" where
  "schedule w sp inp retry delay sched =
     (let initial_call_id = wf_call_id w;
          (r, w1) = schedule_try w sp inp retry delay sched
      in (r, reserve_call_ids w1 initial_call_id delay retry))"

text \<open>
  The methods of \<open>_SWFWorkflow\<close> that share a name with one of the scheduler carry the
  prefix \<open>wf\<close>: \<open>_schedule_activity\<close> is \<open>wf_schedule_activity\<close>, \<open>restart\<close> is
  \<open>wf_restart\<close>, and so on.
\<close>

definition wf_schedule_activity ::
  "workflow \<Rightarrow> spec \<Rightarrow> string \<Rightarrow> int \<Rightarrow> int \<Rightarrow> (error + found) \<times> workflow" where
  "wf_schedule_activity w sp inp retry delay = schedule w sp inp retry delay schedule_activity"

definition wf_schedule_workflow ::
  "string \<Rightarrow> workflow \<Rightarrow> spec \<Rightarrow> string \<Rightarrow> int \<Rightarrow> int \<Rightarrow> (error + found) \<times> workflow" where
  "wf_schedule_workflow uuid4 w sp inp retry delay =
     schedule w sp inp retry delay (schedule_workflow uuid4)"

text \<open>
  The serializers are the class attributes \<open>_serialize_restart_arguments\<close> and
  \<open>_serialize_result\<close> (\<open>json.dumps\<close> by default), and \<open>_deserialize_arguments\<close>
  (\<open>json.loads\<close>): each returns its value (\<open>Inr\<close>) or raises an exception (\<open>Inl\<close>).
  \<open>restart\<close> and \<open>_finish\<close> catch a TypeError only, and return False; any other
  exception leaves the method, the runtime as it was.
\<close>

definition wf_restart ::
  "('v \<Rightarrow> exc + string) \<Rightarrow> workflow \<Rightarrow> 'v \<Rightarrow> (exc + bool) \<times> workflow" where
  "wf_restart serialize_restart_arguments w args =
     (case serialize_restart_arguments args of
        Inl (cls, msg) \<Rightarrow> if cls = TypeError then (Inr False, w) else (Inl (cls, msg), w)
      | Inr inp \<Rightarrow>
          (case restart (wf_scheduler w) (wf_spec w) inp (wf_tags w) of
             (ok, s) \<Rightarrow> (Inr ok, w\<lparr>wf_scheduled := True, wf_scheduler := s\<rparr>)))"

definition wf_fail :: "workflow \<Rightarrow> string \<Rightarrow> bool \<times> workflow" where
  "wf_fail w reason =
     (case fail (wf_scheduler w) reason of
        (ok, s) \<Rightarrow> (ok, w\<lparr>wf_scheduled := True, wf_scheduler := s\<rparr>))"

definition wf_suspend :: "workflow \<Rightarrow> bool \<times> workflow" where
  "wf_suspend w = (case flush (wf_scheduler w) of (ok, s) \<Rightarrow> (ok, w\<lparr>wf_scheduler := s\<rparr>))"

text \<open>
  Modelled from the spec: the classes \<open>Result\<close>, \<open>Error\<close> and \<open>Timeout\<close> of
  \<open>flowy.result\<close>, which is missing. The \<open>result()\<close> of a \<open>Result\<close> returns its value;
  that of an \<open>Error\<close> or a \<open>Timeout\<close> raises a TaskError, here with its message.
  \<open>Plain\<close> is a returned value of any other class.
\<close>

datatype 'v task_result = Plain 'v | Result 'v | Error string | Timeout string

definition wf_finish ::
  "('v \<Rightarrow> exc + string) \<Rightarrow> workflow \<Rightarrow> 'v task_result \<Rightarrow> (exc + bool) \<times> workflow" where
  "wf_finish serialize_result w res =
     (let finish_value = (\<lambda>r.
            if \<not> wf_scheduled w \<and> wf_running w = {}
            then (case serialize_result r of
                    Inl (cls, msg) \<Rightarrow>
                      if cls = TypeError then (Inr False, w) else (Inl (cls, msg), w)
                  | Inr r' \<Rightarrow>
                      (case complete (wf_scheduler w) r' of
                         (ok, s) \<Rightarrow> (Inr ok, w\<lparr>wf_scheduler := s\<rparr>)))
            else (case flush (wf_scheduler w) of (ok, s) \<Rightarrow> (Inr ok, w\<lparr>wf_scheduler := s\<rparr>)))
      in case res of
           Plain r \<Rightarrow> finish_value r
         | Result r \<Rightarrow> finish_value r
         | Error e \<Rightarrow>
             (case fail (wf_scheduler w) e of (ok, s) \<Rightarrow> (Inr ok, w\<lparr>wf_scheduler := s\<rparr>))
         | Timeout e \<Rightarrow>
             (case fail (wf_scheduler w) e of (ok, s) \<Rightarrow> (Inr ok, w\<lparr>wf_scheduler := s\<rparr>)))"

text \<open>
  \<open>Task.__call__\<close> on a runtime. The body \<open>run\<close> of the workflow is a parameter: from the
  runtime and the arguments it returns a value, raises SuspendTask or raises another
  exception, and leaves the runtime as its calls made it. A ValueError of the
  deserializer returns False; an exception of the body is passed to \<open>_fail\<close>; one
  raised by \<open>_finish\<close> is not caught.
\<close>

datatype 'v run_result = Returns "'v task_result" | Suspends | Raises error string

definition Task_call ::
  "(string \<Rightarrow> exc + 'a) \<Rightarrow> (workflow \<Rightarrow> 'a \<Rightarrow> 'v run_result \<times> workflow) \<Rightarrow>
   ('v \<Rightarrow> exc + string) \<Rightarrow> workflow \<Rightarrow> (exc + bool) \<times> workflow" where
  "Task_call deserialize_arguments run serialize_result w =
     (case deserialize_arguments (wf_input w) of
        Inl (cls, msg) \<Rightarrow> if cls = ValueError then (Inr False, w) else (Inl (cls, msg), w)
      | Inr args \<Rightarrow>
          (case run w args of
             (Suspends, w1) \<Rightarrow> (case wf_suspend w1 of (ok, w2) \<Rightarrow> (Inr ok, w2))
           | (Raises cls msg, w1) \<Rightarrow> (case wf_fail w1 msg of (ok, w2) \<Rightarrow> (Inr ok, w2))
           | (Returns res, w1) \<Rightarrow> wf_finish serialize_result w1 res))"

text \<open>
  What the body of a workflow and \<open>Task.__call__\<close> after it can do to the runtime in one
  decision turn: calls of activities and sub-workflows (with the random token each
  sub-workflow call draws), restarts, and the three ways \<open>__call__\<close> ends. A step is
  the runtime after the operation, whether it returned or raised.
\<close>

datatype 'v wf_op =
    CallActivity spec string int int
  | CallWorkflow string spec string int int
  | Restart 'v
  | Suspend
  | Fail string
  | Finish "'v task_result"

fun wf_step :: "('v \<Rightarrow> exc + string) \<Rightarrow> workflow \<Rightarrow> 'v wf_op \<Rightarrow> workflow" where
  "wf_step ser w (CallActivity sp inp retry delay) = snd (wf_schedule_activity w sp inp retry delay)"
| "wf_step ser w (CallWorkflow uuid4 sp inp retry delay) =
     snd (wf_schedule_workflow uuid4 w sp inp retry delay)"
| "wf_step ser w (Restart args) = snd (wf_restart ser w args)"
| "wf_step ser w Suspend = snd (wf_suspend w)"
| "wf_step ser w (Fail reason) = snd (wf_fail w reason)"
| "wf_step ser w (Finish res) = snd (wf_finish ser w res)"

fun wf_run :: "('v \<Rightarrow> exc + string) \<Rightarrow> workflow \<Rightarrow> 'v wf_op list \<Rightarrow> workflow" where
  "wf_run ser w [] = w"
| "wf_run ser w (op # ops) = wf_run ser (wf_step ser w op) ops"

text \<open>The operations of a scheduler, for the properties of every sequence of them.\<close>

datatype sch_op =
    Flush
  | SchRestart spec string "string list option"
  | SchFail string
  | SchComplete string
  | ScheduleTimer int int
  | ScheduleActivity spec int string
  | ScheduleWorkflow string spec int string

fun sch_step :: "scheduler \<Rightarrow> sch_op \<Rightarrow> scheduler" where
  "sch_step s Flush = snd (flush s)"
| "sch_step s (SchRestart sp inp tags) = snd (restart s sp inp tags)"
| "sch_step s (SchFail reason) = snd (fail s reason)"
| "sch_step s (SchComplete result) = snd (complete s result)"
| "sch_step s (ScheduleTimer delay call_id) = schedule_timer s delay call_id"
| "sch_step s (ScheduleActivity sp call_id inp) = schedule_activity s sp call_id inp"
| "sch_step s (ScheduleWorkflow uuid4 sp call_id inp) = schedule_workflow uuid4 s sp call_id inp"

fun sch_run :: "scheduler \<Rightarrow> sch_op list \<Rightarrow> scheduler" where
  "sch_run s [] = s"
| "sch_run s (op # ops) = sch_run (sch_step s op) ops"

section \<open>The execution context: SWFWorkflowContext (flowy/backend/swf.py)\<close>

text \<open>\<^verbatim>\<open>str.upper()\<close> on ASCII letters.\<close>

definition py_upper :: "string \<Rightarrow> string" where
  "py_upper s =
     map (\<lambda>c. if 97 \<le> (of_char c :: nat) \<and> (of_char c :: nat) \<le> 122
              then char_of ((of_char c :: nat) - 32) else c) s"

definition str_or_none :: "string option \<Rightarrow> string option" where
  "str_or_none val = (case val of None \<Rightarrow> None | Some v \<Rightarrow> Some v)"

definition cp_encode :: "string option \<Rightarrow> error + string option" where
  "cp_encode val =
     (let val' = (case val of None \<Rightarrow> None | Some v \<Rightarrow> Some (py_upper v))
      in if val' \<in> {Some ''TERMINATE'', Some ''REQUEST_CANCEL'', Some ''ABANDON'', None}
         then Inr val' else Inl ValueError)"

text \<open>
  \<^verbatim>\<open>list(set(str(t) for t in tags))[:5]\<close>. The order in which the interpreter lists
  a set is not fixed by the code; it is the parameter \<open>list_of_set\<close>, of \<open>_tags\<close> and
  of what calls it.
\<close>

definition tags_of :: "(string set \<Rightarrow> string list) \<Rightarrow> string list option \<Rightarrow> string list option" where
  "tags_of list_of_set tags =
     (case tags of None \<Rightarrow> None | Some ts \<Rightarrow> Some (take 5 (list_of_set (set ts))))"

text \<open>
  The attributes of an \<open>SWFWorkflowContext\<close>: the five of the snapshot, and the others with
  the prefix \<open>ctx\<close>. Its methods carry the same prefix: \<open>flush\<close> is \<open>ctx_flush\<close>.
\<close>

record swf_context = snapshot +
  ctx_layer1 :: layer1
  ctx_token :: string
  ctx_name :: string
  ctx_version :: string
  ctx_input :: string
  ctx_task_list :: "string option"
  ctx_decision_duration :: "string option"
  ctx_workflow_duration :: "string option"
  ctx_tags :: "string list option"
  ctx_child_policy :: "string option"
  ctx_decisions :: "decision list"
  ctx_closed :: bool

definition SWFWorkflowContext ::
  "layer1 \<Rightarrow> string \<Rightarrow> string \<Rightarrow> string \<Rightarrow> string \<Rightarrow> string option \<Rightarrow> string option \<Rightarrow>
   string option \<Rightarrow> string list option \<Rightarrow> string option \<Rightarrow> snapshot \<Rightarrow> swf_context" where
  "SWFWorkflowContext l token name version input_data task_list decision_duration
     workflow_duration tags child_policy snap =
     \<lparr>running = running snap, timedout = timedout snap, results = results snap,
      errors = errors snap, order = order snap,
      ctx_layer1 = l, ctx_token = token, ctx_name = name, ctx_version = version,
      ctx_input = input_data, ctx_task_list = task_list,
      ctx_decision_duration = decision_duration, ctx_workflow_duration = workflow_duration,
      ctx_tags = tags, ctx_child_policy = child_policy, ctx_decisions = [],
      ctx_closed = False\<rparr>"

definition timer_ready :: "swf_context \<Rightarrow> string \<Rightarrow> bool" where
  "timer_ready ctx call_key = (results ctx (timer_key call_key) \<noteq> None)"

text \<open>A transport failure of the response is logged and ignored.\<close>

definition ctx_flush :: "swf_context \<Rightarrow> swf_context" where
  "ctx_flush ctx =
     (if ctx_closed ctx then ctx
      else (case respond_decision_task_completed (ctx_layer1 ctx) (ctx_token ctx)
                   (ctx_decisions ctx) of
              (ok, l) \<Rightarrow> ctx\<lparr>ctx_closed := True, ctx_layer1 := l\<rparr>))"

text \<open>\<^verbatim>\<open>reason=str(reason)[:_REASON_SIZE]\<close>, where \<open>_REASON_SIZE\<close> is 256.\<close>

definition ctx_fail :: "swf_context \<Rightarrow> string \<Rightarrow> swf_context" where
  "ctx_fail ctx reason =
     ctx_flush (ctx\<lparr>ctx_decisions := [FailWorkflowExecution (take 256 reason)]\<rparr>)"

text \<open>
  \<open>restart\<close> empties the decisions, then builds the arguments of the continue-as-new
  decision: when \<open>_cp_encode\<close> raises ValueError nothing is added and nothing is flushed.
\<close>

definition ctx_restart ::
  "(string set \<Rightarrow> string list) \<Rightarrow> swf_context \<Rightarrow> string \<Rightarrow> error option \<times> swf_context" where
  "ctx_restart list_of_set ctx input_data =
     (case cp_encode (ctx_child_policy ctx) of
        Inl e \<Rightarrow> (Some e, ctx\<lparr>ctx_decisions := []\<rparr>)
      | Inr cp \<Rightarrow>
          (None,
           ctx_flush (ctx\<lparr>ctx_decisions :=
             [ContinueAsNewWorkflowExecution
                [str_or_none (ctx_decision_duration ctx), str_or_none (ctx_workflow_duration ctx),
                 str_or_none (ctx_task_list ctx)]
                (take 32768 input_data) (tags_of list_of_set (ctx_tags ctx)) cp]\<rparr>)))"

definition ctx_finish :: "swf_context \<Rightarrow> string \<Rightarrow> swf_context" where
  "ctx_finish ctx result =
     ctx_flush (ctx\<lparr>ctx_decisions := [CompleteWorkflowExecution (take 32768 result)]\<rparr>)"

definition ctx_schedule_timer :: "swf_context \<Rightarrow> string \<Rightarrow> int \<Rightarrow> swf_context" where
  "ctx_schedule_timer ctx call_key delay =
     ctx\<lparr>ctx_decisions := ctx_decisions ctx @ [StartTimer (str_int delay) (timer_key call_key)]\<rparr>"

definition ctx_schedule_activity ::
  "swf_context \<Rightarrow> string \<Rightarrow> string \<Rightarrow> string \<Rightarrow> string \<Rightarrow> string option \<Rightarrow> string option \<Rightarrow>
   string option \<Rightarrow> string option \<Rightarrow> string option \<Rightarrow> swf_context" where
  "ctx_schedule_activity ctx call_key name version input_data task_list heartbeat
     schedule_to_close schedule_to_start start_to_close =
     ctx\<lparr>ctx_decisions := ctx_decisions ctx @
       [ScheduleActivityTask call_key name version
          [str_or_none heartbeat, str_or_none schedule_to_close, str_or_none schedule_to_start,
           str_or_none start_to_close, str_or_none task_list]
          input_data]\<rparr>"

definition ctx_schedule_workflow ::
  "string \<Rightarrow> swf_context \<Rightarrow> string \<Rightarrow> string \<Rightarrow> string \<Rightarrow> string \<Rightarrow> string option \<Rightarrow>
   string option \<Rightarrow> string option \<Rightarrow> swf_context" where
  "ctx_schedule_workflow uuid4 ctx call_key name version input_data task_list
     workflow_duration decision_duration =
     ctx\<lparr>ctx_decisions := ctx_decisions ctx @
       [StartChildWorkflowExecution name version (subworkflow_key uuid4 call_key)
          [str_or_none decision_duration, str_or_none workflow_duration, str_or_none task_list]
          input_data]\<rparr>"

section \<open>The proxies: SWFActivityProxy and SWFWorkflowProxy (flowy/backend/swf.py)\<close>

text \<open>
  \<open>serialize_input\<close> returns the serialized arguments (\<open>Inr\<close>) or raises an exception,
  \<open>Inl\<close> with the exception's message, which is what \<open>str(e)\<close> is in
  \<open>context.fail(e)\<close>.
\<close>

record 'a SWFActivityProxy =
  ap_identity :: string
  ap_name :: string
  ap_version :: string
  ap_task_list :: "string option"
  ap_heartbeat :: "string option"
  ap_schedule_to_close :: "string option"
  ap_schedule_to_start :: "string option"
  ap_start_to_close :: "string option"
  ap_retry :: "nat \<times> nat \<times> nat"
  ap_serialize_input :: "'a \<Rightarrow> string + string"

definition activity_proxy_schedule ::
  "'a SWFActivityProxy \<Rightarrow> swf_context \<Rightarrow> string \<Rightarrow> int \<Rightarrow> 'a \<Rightarrow> swf_context" where
  "activity_proxy_schedule self ctx call_key delay args =
     (if delay > 0 \<and> \<not> timer_ready ctx call_key then ctx_schedule_timer ctx call_key delay
      else (case ap_serialize_input self args of
              Inl e \<Rightarrow> ctx_fail ctx e
            | Inr input_data \<Rightarrow>
                ctx_schedule_activity ctx call_key (ap_name self) (ap_version self) input_data
                  (ap_task_list self) (ap_heartbeat self) (ap_schedule_to_close self)
                  (ap_schedule_to_start self) (ap_start_to_close self)))"

record 'a SWFWorkflowProxy =
  wp_identity :: string
  wp_name :: string
  wp_version :: string
  wp_task_list :: "string option"
  wp_workflow_duration :: "string option"
  wp_decision_duration :: "string option"
  wp_retry :: "nat \<times> nat \<times> nat"
  wp_serialize_input :: "'a \<Rightarrow> string + string"

definition workflow_proxy_schedule ::
  "string \<Rightarrow> 'a SWFWorkflowProxy \<Rightarrow> swf_context \<Rightarrow> string \<Rightarrow> int \<Rightarrow> 'a \<Rightarrow> swf_context" where
  "workflow_proxy_schedule uuid4 self ctx call_key delay args =
     (if delay > 0 \<and> \<not> timer_ready ctx call_key then ctx_schedule_timer ctx call_key delay
      else (case wp_serialize_input self args of
              Inl e \<Rightarrow> ctx_fail ctx e
            | Inr input_data \<Rightarrow>
                ctx_schedule_workflow uuid4 ctx call_key (wp_name self) (wp_version self)
                  input_data (wp_task_list self) (wp_workflow_duration self)
                  (wp_decision_duration self)))"

text \<open>
  The operations on a context, for the properties of every sequence of them; \<open>los\<close> is
  the order in which the interpreter lists a set.
\<close>

datatype ctx_op =
    CtxFlush
  | CtxFail string
  | CtxRestart string
  | CtxFinish string
  | CtxScheduleTimer string int
  | CtxScheduleActivity string string string string "string option" "string option"
      "string option" "string option" "string option"
  | CtxScheduleWorkflow string string string string string "string option" "string option"
      "string option"

fun ctx_step :: "(string set \<Rightarrow> string list) \<Rightarrow> swf_context \<Rightarrow> ctx_op \<Rightarrow> swf_context" where
  "ctx_step los ctx CtxFlush = ctx_flush ctx"
| "ctx_step los ctx (CtxFail reason) = ctx_fail ctx reason"
| "ctx_step los ctx (CtxRestart input_data) = snd (ctx_restart los ctx input_data)"
| "ctx_step los ctx (CtxFinish result) = ctx_finish ctx result"
| "ctx_step los ctx (CtxScheduleTimer call_key delay) = ctx_schedule_timer ctx call_key delay"
| "ctx_step los ctx (CtxScheduleActivity call_key name version input_data task_list heartbeat
       schedule_to_close schedule_to_start start_to_close) =
     ctx_schedule_activity ctx call_key name version input_data task_list heartbeat
       schedule_to_close schedule_to_start start_to_close"
| "ctx_step los ctx (CtxScheduleWorkflow uuid4 call_key name version input_data task_list
       workflow_duration decision_duration) =
     ctx_schedule_workflow uuid4 ctx call_key name version input_data task_list
       workflow_duration decision_duration"

fun ctx_run :: "(string set \<Rightarrow> string list) \<Rightarrow> swf_context \<Rightarrow> ctx_op list \<Rightarrow> swf_context" where
  "ctx_run los ctx [] = ctx"
| "ctx_run los ctx (op # ops) = ctx_run los (ctx_step los ctx op) ops"

section \<open>Polling for a decision task (flowy/backend/swf.py)\<close>

text \<open>A value that is present and not the empty string.\<close>

definition truthy :: "string option \<Rightarrow> bool" where
  "truthy v = (case v of None \<Rightarrow> False | Some s \<Rightarrow> s \<noteq> [])"

text \<open>
  \<open>poll_first_page\<close> polls until a response has a task token; it does not return when
  none ever has.
\<close>

partial_function (option) poll_first_page ::
  "layer1 \<Rightarrow> string \<Rightarrow> string \<Rightarrow> string option \<Rightarrow> (page \<times> layer1) option" where
  "poll_first_page l domain task_list identity =
     (case poll_for_decision_task l domain task_list (str_or_none identity) None of
        None \<Rightarrow> None
      | Some (SWFResponseError, l') \<Rightarrow> poll_first_page l' domain task_list identity
      | Some (Response swf_response, l') \<Rightarrow>
          if truthy (taskToken swf_response) then Some (swf_response, l')
          else poll_first_page l' domain task_list identity)"

declare poll_first_page.simps [code]

text \<open>
  \<open>poll_response_page\<close>: the \<^verbatim>\<open>for _ in range(7)\<close> loop with \<open>n\<close> rounds left; its
  \<open>else\<close> clause, reached when no round succeeded, raises the pagination error.
\<close>

fun poll_response_page_loop ::
  "nat \<Rightarrow> layer1 \<Rightarrow> string \<Rightarrow> string \<Rightarrow> string \<Rightarrow> string option \<Rightarrow>
   ((error + page) \<times> layer1) option" where
  "poll_response_page_loop 0 l domain task_list token identity = Some (Inl PaginationError, l)"
| "poll_response_page_loop (Suc n) l domain task_list token identity =
     (case poll_for_decision_task l domain task_list (str_or_none identity) (Some token) of
        None \<Rightarrow> None
      | Some (SWFResponseError, l') \<Rightarrow>
          poll_response_page_loop n l' domain task_list token identity
      | Some (Response swf_response, l') \<Rightarrow> Some (Inr swf_response, l'))"

definition poll_response_page ::
  "layer1 \<Rightarrow> string \<Rightarrow> string \<Rightarrow> string \<Rightarrow> string option \<Rightarrow> ((error + page) \<times> layer1) option" where
  "poll_response_page l domain task_list token identity =
     poll_response_page_loop 7 l domain task_list token identity"

text \<open>
  The generator \<open>events\<close> is its state: the events of the current page not yet yielded,
  and the page's \<open>nextPageToken\<close>. \<open>next_event\<close> is one \<open>next()\<close> on it: the next event
  and the new state, StopIteration after the last page, or the pagination error.
\<close>

type_synonym events_gen = "event list \<times> string option"

partial_function (option) next_event ::
  "layer1 \<Rightarrow> string \<Rightarrow> string \<Rightarrow> string option \<Rightarrow> events_gen \<Rightarrow>
   ((error + event \<times> events_gen) \<times> layer1) option" where
  "next_event l domain task_list identity gen =
     (case gen of
        (event # rest, next_page_token) \<Rightarrow> Some (Inr (event, (rest, next_page_token)), l)
      | ([], None) \<Rightarrow> Some (Inl StopIteration, l)
      | ([], Some token) \<Rightarrow>
          if token = [] then Some (Inl StopIteration, l)
          else (case poll_response_page l domain task_list token identity of
                  None \<Rightarrow> None
                | Some (Inl e, l') \<Rightarrow> Some (Inl e, l')
                | Some (Inr pg, l') \<Rightarrow>
                    next_event l' domain task_list identity (events pg, nextPageToken pg)))"

declare next_event.simps [code]

text \<open>\<open>load_events\<close> on the generator: the loop of \<open>load_events_from\<close>, fed by \<open>next_event\<close>.\<close>

partial_function (option) load_events_gen ::
  "layer1 \<Rightarrow> string \<Rightarrow> string \<Rightarrow> string option \<Rightarrow> history \<Rightarrow> events_gen \<Rightarrow>
   ((error + history) \<times> layer1) option" where
  "load_events_gen l domain task_list identity h gen =
     (case next_event l domain task_list identity gen of
        None \<Rightarrow> None
      | Some (Inl StopIteration, l') \<Rightarrow> Some (Inr h, l')
      | Some (Inl e, l') \<Rightarrow> Some (Inl e, l')
      | Some (Inr (event, gen'), l') \<Rightarrow>
          (case load_event h event of
             Inl e \<Rightarrow> Some (Inl e, l')
           | Inr h' \<Rightarrow> load_events_gen l' domain task_list identity h' gen'))"

declare load_events_gen.simps [code]

text \<open>
  \<open>poll_next_decision\<close>. Only the pagination error of \<open>load_events\<close> is caught; the
  retry passes \<open>task_list\<close> and \<open>domain\<close> the way the source does.
\<close>

partial_function (option) poll_next_decision ::
  "layer1 \<Rightarrow> string \<Rightarrow> string \<Rightarrow> string option \<Rightarrow> ((error + swf_context) \<times> layer1) option" where
  "poll_next_decision l domain task_list identity =
     (case poll_first_page l domain task_list identity of
        None \<Rightarrow> None
      | Some (first_page, l1) \<Rightarrow>
          (case taskToken first_page of
             None \<Rightarrow> Some (Inl KeyError, l1)
           | Some token \<Rightarrow>
          (case next_event l1 domain task_list identity
                  (events first_page, nextPageToken first_page) of
             None \<Rightarrow> None
           | Some (Inl e, l2) \<Rightarrow> Some (Inl e, l2)
           | Some (Inr (WorkflowExecutionStarted a, all_events), l2) \<Rightarrow>
               if taskList_name a \<noteq> task_list then Some (Inl AssertionError, l2)
               else (case load_events_gen l2 domain task_list identity empty_history all_events of
                       None \<Rightarrow> None
                     | Some (Inl PaginationError, l3) \<Rightarrow>
                         poll_next_decision l3 task_list domain identity
                     | Some (Inl e, l3) \<Rightarrow> Some (Inl e, l3)
                     | Some (Inr h, l3) \<Rightarrow>
                         Some (Inr (SWFWorkflowContext l3 token
                                  (workflowType_name a) (workflowType_version a) (wesea_input a)
                                  (Some task_list) (Some (taskStartToCloseTimeout a))
                                  (Some (executionStartToCloseTimeout a)) (tagList a)
                                  (Some (childPolicy a)) (snapshot.truncate h)), l3))
           | Some (Inr (first_event, all_events), l2) \<Rightarrow> Some (Inl AssertionError, l2))))"

declare poll_next_decision.simps [code]


section \<open>Notions used to state the properties of load_events\<close>

text \<open>
  An event is offending in a state of the fold when it is a completion, failure or timeout
  of an activity whose \<open>scheduledEventId\<close> no ActivityTaskScheduled event has recorded in
  \<open>event2call\<close>, or when the call key it refers to (for a child workflow the suffix of its
  workflowId, for a fired timer the timer id without its \<open>:t\<close>) is not in \<open>running\<close>.
\<close>

fun offending :: "history \<Rightarrow> event \<Rightarrow> bool" where
  "offending h (ActivityTaskCompleted scheduled_event_id result) =
     (case event2call h scheduled_event_id of None \<Rightarrow> True | Some eid \<Rightarrow> eid \<notin> running h)"
| "offending h (ActivityTaskFailed scheduled_event_id reason) =
     (case event2call h scheduled_event_id of None \<Rightarrow> True | Some eid \<Rightarrow> eid \<notin> running h)"
| "offending h (ActivityTaskTimedOut scheduled_event_id) =
     (case event2call h scheduled_event_id of None \<Rightarrow> True | Some eid \<Rightarrow> eid \<notin> running h)"
| "offending h (ChildWorkflowExecutionCompleted workflow_id result) =
     (subworkflow_call_key workflow_id \<notin> running h)"
| "offending h (ChildWorkflowExecutionFailed workflow_id reason) =
     (subworkflow_call_key workflow_id \<notin> running h)"
| "offending h (ChildWorkflowExecutionTimedOut workflow_id) =
     (subworkflow_call_key workflow_id \<notin> running h)"
| "offending h (TimerFired eid) =
     (case timer_call_key eid of Inl e \<Rightarrow> False | Inr k \<Rightarrow> k \<notin> running h)"
| "offending h e = False"

text \<open>
  A history is well-formed when no event is offending in the state the fold has reached
  when it gets to that event.
\<close>

fun wellformed_from :: "history \<Rightarrow> event list \<Rightarrow> bool" where
  "wellformed_from h [] = True"
| "wellformed_from h (e # es) =
     (\<not> offending h e \<and>
      (case load_event h e of Inl err \<Rightarrow> True | Inr h' \<Rightarrow> wellformed_from h' es))"

definition wellformed :: "event list \<Rightarrow> bool" where
  "wellformed evs = wellformed_from empty_history evs"

text \<open>The assertion of \<open>timer_call_key\<close>: a timer id ends with \<open>:t\<close>.\<close>

fun timer_id_ok :: "event \<Rightarrow> bool" where
  "timer_id_ok (TimerStarted eid) = endswith eid '':t''"
| "timer_id_ok (TimerFired eid) = endswith eid '':t''"
| "timer_id_ok e = True"

text \<open>The event ids of the ActivityTaskScheduled events of a history.\<close>

fun scheduled_event_ids :: "event list \<Rightarrow> int set" where
  "scheduled_event_ids [] = {}"
| "scheduled_event_ids (ActivityTaskScheduled event_id eid # es) =
     insert event_id (scheduled_event_ids es)"
| "scheduled_event_ids (e # es) = scheduled_event_ids es"

text \<open>
  A key is fresh in a state when it is in none of the four buckets. The key an event
  introduces is the one it writes without having looked it up: the activity id of a
  scheduled or rejected activity, the call key of an initiated or rejected child workflow,
  the call key of a started timer, and the timer id under which a fired timer is stored
  in \<open>results\<close>. A history has fresh ids when every event introduces a key that is fresh
  in the state the fold has reached.
\<close>

definition fresh :: "history \<Rightarrow> string \<Rightarrow> bool" where
  "fresh h k =
     (k \<notin> running h \<and> k \<notin> timedout h \<and> results h k = None \<and> errors h k = None)"

fun introduces :: "event \<Rightarrow> string option" where
  "introduces (ActivityTaskScheduled event_id eid) = Some eid"
| "introduces (ScheduleActivityTaskFailed eid reason) = Some eid"
| "introduces (StartChildWorkflowExecutionInitiated workflow_id) =
     Some (subworkflow_call_key workflow_id)"
| "introduces (StartChildWorkflowExecutionFailed workflow_id reason) =
     Some (subworkflow_call_key workflow_id)"
| "introduces (TimerStarted eid) =
     (case timer_call_key eid of Inl e \<Rightarrow> None | Inr k \<Rightarrow> Some k)"
| "introduces (TimerFired eid) = Some eid"
| "introduces e = None"

definition introduces_fresh :: "history \<Rightarrow> event \<Rightarrow> bool" where
  "introduces_fresh h e = (case introduces e of None \<Rightarrow> True | Some k \<Rightarrow> fresh h k)"

fun fresh_ids_from :: "history \<Rightarrow> event list \<Rightarrow> bool" where
  "fresh_ids_from h [] = True"
| "fresh_ids_from h (e # es) =
     (introduces_fresh h e \<and>
      (case load_event h e of Inl err \<Rightarrow> True | Inr h' \<Rightarrow> fresh_ids_from h' es))"

definition fresh_ids :: "event list \<Rightarrow> bool" where
  "fresh_ids evs = fresh_ids_from empty_history evs"

text \<open>The keys of \<open>results\<close> whose value is Python's \<open>None\<close>: the fired timers.\<close>

definition null_results :: "'a snapshot_scheme \<Rightarrow> string set" where
  "null_results s = {k. results s k = Some None}"

definition buckets_disjoint :: "'a snapshot_scheme \<Rightarrow> bool" where
  "buckets_disjoint s =
     (running s \<inter> timedout s = {} \<and> running s \<inter> dom (results s) = {} \<and>
      running s \<inter> dom (errors s) = {} \<and> timedout s \<inter> dom (results s) = {} \<and>
      timedout s \<inter> dom (errors s) = {} \<and> dom (results s) \<inter> dom (errors s) = {})"

definition buckets_finite :: "'a snapshot_scheme \<Rightarrow> bool" where
  "buckets_finite s =
     (finite (running s) \<and> finite (timedout s) \<and> finite (dom (results s)) \<and>
      finite (dom (errors s)))"

definition order_exact :: "'a snapshot_scheme \<Rightarrow> bool" where
  "order_exact s =
     (distinct (order s) \<and>
      set (order s) = timedout s \<union> dom (errors s) \<union> (dom (results s) - null_results s))"

section \<open>Notions used to state the properties of the runtime and the scheduler\<close>

text \<open>
  The delay and retry of a call, and the call cursor after a sequence of operations as the
  allocation rule gives it: every call moves the cursor by one, plus one when its delay is
  positive, plus its retry; nothing else moves it.
\<close>

fun call_params :: "'v wf_op \<Rightarrow> (int \<times> int) option" where
  "call_params (CallActivity sp inp retry delay) = Some (delay, retry)"
| "call_params (CallWorkflow uuid4 sp inp retry delay) = Some (delay, retry)"
| "call_params op = None"

fun cursor_after :: "int \<Rightarrow> (int \<times> int) option list \<Rightarrow> int" where
  "cursor_after c [] = c"
| "cursor_after c (None # ps) = cursor_after c ps"
| "cursor_after c (Some (delay, retry) # ps) =
     cursor_after (c + 1 + (if delay > 0 then 1 else 0) + retry) ps"

text \<open>
  The decisions sent by a scheduler, or by a context, since the client was \<open>l\<close>. A
  response is well terminated when a terminal decision in it is its only decision.
\<close>

definition sch_sent :: "layer1 \<Rightarrow> scheduler \<Rightarrow> decision list list" where
  "sch_sent l s = sent_since l (sch_swf_client s)"

definition ctx_sent :: "layer1 \<Rightarrow> swf_context \<Rightarrow> decision list list" where
  "ctx_sent l ctx = sent_since l (ctx_layer1 ctx)"

definition well_terminated :: "decision list \<Rightarrow> bool" where
  "well_terminated r = (\<forall>d \<in> set r. terminal d \<longrightarrow> r = [d])"

text \<open>
  The invariants of a scheduler and of a context created on the client \<open>l\<close>: closed, it
  has sent one response, a well terminated one; open, it has sent none and holds no
  terminal decision. The budget of a scheduler: its rate limit is \<open>rl\<close>, and neither its
  buffer nor a response it sent has more scheduling decisions than \<open>max 0 rl\<close>.
\<close>

definition sch_inv :: "layer1 \<Rightarrow> scheduler \<Rightarrow> bool" where
  "sch_inv l s =
     (\<exists>new. responded (sch_swf_client s) = responded l @ new \<and>
        (if sch_closed s
         then length new = 1 \<and> (\<forall>r \<in> set (map snd new). well_terminated r)
         else new = [] \<and> (\<forall>d \<in> set (sch_decisions s). \<not> terminal d)))"

definition ctx_inv :: "layer1 \<Rightarrow> swf_context \<Rightarrow> bool" where
  "ctx_inv l ctx =
     (\<exists>new. responded (ctx_layer1 ctx) = responded l @ new \<and>
        (if ctx_closed ctx
         then length new = 1 \<and> (\<forall>r \<in> set (map snd new). well_terminated r)
         else new = [] \<and> (\<forall>d \<in> set (ctx_decisions ctx). \<not> terminal d)))"

definition sch_budget :: "layer1 \<Rightarrow> int \<Rightarrow> scheduler \<Rightarrow> bool" where
  "sch_budget l rl s =
     (sch_rate_limit s = rl \<and>
      int (length (filter scheduling (sch_decisions s))) \<le> max 0 rl \<and>
      (\<forall>r \<in> set (sch_sent l s). int (length (filter scheduling r)) \<le> max 0 rl))"

section \<open>Fixtures\<close>

text \<open>
  A client that answers no poll and accepts every response, and the runtime of a workflow
  \<open>W\<close> replaying a snapshot on it.
\<close>

definition quiet_client :: layer1 where
  "quiet_client =
     \<lparr>poll_script = [], respond_ok = (\<lambda>ds. True), poll_requests = [], responded = []\<rparr>"

definition replay ::
  "int list \<Rightarrow> int list \<Rightarrow> (int \<rightharpoonup> string option) \<Rightarrow> (int \<rightharpoonup> string) \<Rightarrow> int list \<Rightarrow> workflow" where
  "replay running0 timedout0 results0 errors0 order0 =
     SWFWorkflow quiet_client ''[[],{}]'' ''token'' running0 timedout0 results0 errors0 order0
       (WorkflowSpec ''W'' ''1'' []) None"

text \<open>
  The body of a workflow that restarts the execution with the value \<open>v\<close> and returns
  it; the body catches no exception of \<open>restart\<close>.
\<close>

definition restart_body ::
  "('v \<Rightarrow> exc + string) \<Rightarrow> 'v \<Rightarrow> workflow \<Rightarrow> 'a \<Rightarrow> 'v run_result \<times> workflow" where
  "restart_body serialize_restart_arguments v w args =
     (case wf_restart serialize_restart_arguments w v of
        (Inl (cls, msg), w1) \<Rightarrow> (Raises cls msg, w1)
      | (Inr ok, w1) \<Rightarrow> (Returns (Plain v), w1))"

text \<open>
  A client for a workflow started on the task list \<open>T\<close>: its first response has one
  event and announces a second page; the next seven polls fail; the poll after them is
  answered with a complete one-page response.
\<close>

definition started :: event where
  "started = WorkflowExecutionStarted
     \<lparr>taskList_name = ''T'', taskStartToCloseTimeout = ''30'',
      executionStartToCloseTimeout = ''600'', tagList = None, childPolicy = ''TERMINATE'',
      workflowType_name = ''W'', workflowType_version = ''1'', wesea_input = ''[[],{}]''\<rparr>"

definition failing_client :: layer1 where
  "failing_client =
     \<lparr>poll_script =
        Response \<lparr>taskToken = Some ''token'', events = [started], nextPageToken = Some ''page2''\<rparr> #
        replicate 7 SWFResponseError @
        [Response \<lparr>taskToken = Some ''token2'', events = [started], nextPageToken = None\<rparr>],
      respond_ok = (\<lambda>ds. True), poll_requests = [], responded = []\<rparr>"


section \<open>Properties of load_events\<close>

lemma truncate_sel [simp]:
  "running (snapshot.truncate h) = running h"
  "timedout (snapshot.truncate h) = timedout h"
  "results (snapshot.truncate h) = results h"
  "errors (snapshot.truncate h) = errors h"
  "order (snapshot.truncate h) = order h"
  by (simp_all add: snapshot.truncate_def)

lemma timer_call_key_timer_key [simp]: "timer_call_key (timer_key k) = Inr k"
  by (simp add: timer_call_key_def timer_key_def endswith_def)

lemma timer_call_key_bad: "\<not> endswith eid '':t'' \<Longrightarrow> timer_call_key eid = Inl AssertionError"
  by (simp add: timer_call_key_def)

lemmas finish_defs = completed_def failed_def timed_out_def rejected_def

lemma offending_KeyError: "offending h e \<Longrightarrow> load_event h e = Inl KeyError"
  by (cases e) (auto simp: finish_defs split: option.splits sum.splits)

lemma KeyError_offending: "load_event h e = Inl KeyError \<Longrightarrow> offending h e"
  by (cases e) (auto simp: finish_defs timer_call_key_def split: option.splits sum.splits if_splits)

lemma load_event_total:
  "\<not> offending h e \<Longrightarrow> timer_id_ok e \<Longrightarrow> \<exists>h'. load_event h e = Inr h'"
  by (cases e) (auto simp: finish_defs timer_call_key_def split: option.splits sum.splits if_splits)

lemma load_event_AssertionError:
  "load_event h e = Inl err \<Longrightarrow> err = KeyError \<or> (err = AssertionError \<and> \<not> timer_id_ok e)"
  by (cases e) (auto simp: finish_defs timer_call_key_def split: option.splits sum.splits if_splits)

lemma KeyError_iff: "load_events_from h evs = Inl KeyError \<longleftrightarrow> \<not> wellformed_from h evs"
proof (induction evs arbitrary: h)
  case Nil
  then show ?case by simp
next
  case (Cons e es)
  show ?case
  proof (cases "load_event h e")
    case (Inl err)
    then show ?thesis
      using offending_KeyError [of h e] KeyError_offending [of h e] by auto
  next
    case (Inr h')
    then show ?thesis
      using offending_KeyError [of h e] Cons.IH [of h'] by auto
  qed
qed

lemma total_from:
  "wellformed_from h evs \<Longrightarrow> list_all timer_id_ok evs \<Longrightarrow> \<exists>h'. load_events_from h evs = Inr h'"
proof (induction evs arbitrary: h)
  case Nil
  then show ?case by simp
next
  case (Cons e es)
  then obtain h1 where h1: "load_event h e = Inr h1"
    using load_event_total [of h e] by auto
  with Cons show ?case by auto
qed

lemma returns_wellformed:
  "load_events_from h evs = Inr h' \<Longrightarrow> wellformed_from h evs \<and> list_all timer_id_ok evs"
proof (induction evs arbitrary: h)
  case Nil
  then show ?case by simp
next
  case (Cons e es)
  then obtain h1 where h1: "load_event h e = Inr h1" and rest: "load_events_from h1 es = Inr h'"
    by (auto split: sum.splits)
  have "\<not> offending h e" using h1 offending_KeyError [of h e] by auto
  moreover have "timer_id_ok e" using h1
    by (cases e) (auto simp: timer_call_key_def split: if_splits)
  ultimately show ?case using Cons.IH [OF rest] h1 by simp
qed

lemma load_events_from_append:
  "load_events_from h (xs @ ys) =
     (case load_events_from h xs of Inl e \<Rightarrow> Inl e | Inr h' \<Rightarrow> load_events_from h' ys)"
  by (induction xs arbitrary: h) (auto split: sum.splits)

lemma event2call_dom_step:
  "load_event h e = Inr h' \<Longrightarrow> dom (event2call h') = dom (event2call h) \<union> scheduled_event_ids [e]"
  by (cases e) (auto simp: finish_defs split: option.splits sum.splits if_splits)

lemma scheduled_event_ids_Cons: "scheduled_event_ids (e # es) = scheduled_event_ids [e] \<union> scheduled_event_ids es"
  by (cases e) auto

lemma event2call_dom:
  "load_events_from h evs = Inr h' \<Longrightarrow> dom (event2call h') = dom (event2call h) \<union> scheduled_event_ids evs"
proof (induction evs arbitrary: h)
  case Nil
  then show ?case by simp
next
  case (Cons e es)
  then obtain h1 where h1: "load_event h e = Inr h1" and rest: "load_events_from h1 es = Inr h'"
    by (auto split: sum.splits)
  show ?case
    using Cons.IH [OF rest] event2call_dom_step [OF h1] scheduled_event_ids_Cons [of e es]
    by auto
qed

lemma running_unfinished:
  "buckets_disjoint h \<Longrightarrow> order_exact h \<Longrightarrow> x \<in> running h \<Longrightarrow>
     x \<notin> set (order h) \<and> x \<notin> timedout h \<and> results h x = None \<and> errors h x = None"
  unfolding buckets_disjoint_def order_exact_def by (auto simp: disjoint_iff)

lemma fresh_unfinished:
  "order_exact h \<Longrightarrow> fresh h x \<Longrightarrow> x \<notin> set (order h)"
  unfolding order_exact_def fresh_def by auto

lemma completed_inv:
  assumes "buckets_disjoint h" "order_exact h" "completed h eid r = Inr h'"
  shows "buckets_disjoint h' \<and> order_exact h'"
proof -
  from assms(3) have mem: "eid \<in> running h"
    and h': "h' = h\<lparr>running := running h - {eid}, results := (results h)(eid \<mapsto> Some r),
                    order := order h @ [eid]\<rparr>"
    by (auto simp: completed_def split: if_splits)
  note u = running_unfinished [OF assms(1,2) mem]
  have "buckets_disjoint h'"
    using assms(1) u unfolding buckets_disjoint_def h' by (auto simp: disjoint_iff)
  moreover have "null_results h' = null_results h"
    using u unfolding null_results_def h' by auto
  then have "order_exact h'"
    using assms(2) u unfolding order_exact_def by (auto simp: h' null_results_def)
  ultimately show ?thesis by simp
qed


lemma failed_inv:
  assumes "buckets_disjoint h" "order_exact h" "failed h eid r = Inr h'"
  shows "buckets_disjoint h' \<and> order_exact h'"
proof -
  from assms(3) have mem: "eid \<in> running h"
    and h': "h' = h\<lparr>running := running h - {eid}, errors := (errors h)(eid \<mapsto> r),
                    order := order h @ [eid]\<rparr>"
    by (auto simp: failed_def split: if_splits)
  note u = running_unfinished [OF assms(1,2) mem]
  have "buckets_disjoint h'"
    using assms(1) u unfolding buckets_disjoint_def h' by (auto simp: disjoint_iff)
  moreover have "order_exact h'"
    using assms(2) u unfolding order_exact_def by (auto simp: h' null_results_def)
  ultimately show ?thesis by simp
qed

lemma timed_out_inv:
  assumes "buckets_disjoint h" "order_exact h" "timed_out h eid = Inr h'"
  shows "buckets_disjoint h' \<and> order_exact h'"
proof -
  from assms(3) have mem: "eid \<in> running h"
    and h': "h' = h\<lparr>running := running h - {eid}, timedout := insert eid (timedout h),
                    order := order h @ [eid]\<rparr>"
    by (auto simp: timed_out_def split: if_splits)
  note u = running_unfinished [OF assms(1,2) mem]
  have "buckets_disjoint h'"
    using assms(1) u unfolding buckets_disjoint_def h' by (auto simp: disjoint_iff)
  moreover have "order_exact h'"
    using assms(2) u unfolding order_exact_def by (auto simp: h' null_results_def)
  ultimately show ?thesis by simp
qed

lemma rejected_inv:
  assumes "buckets_disjoint h" "order_exact h" "fresh h eid"
  shows "buckets_disjoint (rejected h eid r) \<and> order_exact (rejected h eid r)"
proof -
  note u = fresh_unfinished [OF assms(2,3)]
  have "buckets_disjoint (rejected h eid r)"
    using assms(1,3) unfolding buckets_disjoint_def rejected_def fresh_def
    by (auto simp: disjoint_iff)
  moreover have "order_exact (rejected h eid r)"
    using assms(2,3) u unfolding order_exact_def rejected_def fresh_def
    by (auto simp: null_results_def)
  ultimately show ?thesis by simp
qed

lemma started_inv:
  assumes "buckets_disjoint h" "order_exact h" "fresh h k"
  shows "buckets_disjoint (h\<lparr>running := insert k (running h)\<rparr>) \<and>
         order_exact (h\<lparr>running := insert k (running h)\<rparr>)"
proof -
  have "buckets_disjoint (h\<lparr>running := insert k (running h)\<rparr>)"
    using assms(1,3) unfolding buckets_disjoint_def fresh_def by (auto simp: disjoint_iff)
  moreover have "order_exact (h\<lparr>running := insert k (running h)\<rparr>)"
    using assms(2) unfolding order_exact_def by (auto simp: null_results_def)
  ultimately show ?thesis by simp
qed

lemma scheduled_inv:
  assumes "buckets_disjoint h" "order_exact h" "fresh h k"
  shows "buckets_disjoint (h\<lparr>event2call := m, running := insert k (running h)\<rparr>) \<and>
         order_exact (h\<lparr>event2call := m, running := insert k (running h)\<rparr>)"
proof -
  have "buckets_disjoint (h\<lparr>event2call := m, running := insert k (running h)\<rparr>)"
    using assms(1,3) unfolding buckets_disjoint_def fresh_def by (auto simp: disjoint_iff)
  moreover have "order_exact (h\<lparr>event2call := m, running := insert k (running h)\<rparr>)"
    using assms(2) unfolding order_exact_def by (auto simp: null_results_def)
  ultimately show ?thesis by simp
qed

lemma fired_inv:
  assumes "buckets_disjoint h" "order_exact h" "fresh h eid"
  shows "buckets_disjoint (h\<lparr>running := running h - {k}, results := (results h)(eid \<mapsto> None)\<rparr>) \<and>
         order_exact (h\<lparr>running := running h - {k}, results := (results h)(eid \<mapsto> None)\<rparr>)"
proof -
  note u = fresh_unfinished [OF assms(2,3)]
  have "buckets_disjoint (h\<lparr>running := running h - {k}, results := (results h)(eid \<mapsto> None)\<rparr>)"
    using assms(1,3) unfolding buckets_disjoint_def fresh_def by (auto simp: disjoint_iff)
  moreover have "order_exact (h\<lparr>running := running h - {k}, results := (results h)(eid \<mapsto> None)\<rparr>)"
    using assms(2,3) u unfolding order_exact_def fresh_def by (auto simp: null_results_def)
  ultimately show ?thesis by simp
qed

lemma inv_step:
  assumes "buckets_disjoint h" "order_exact h" "introduces_fresh h e" "load_event h e = Inr h'"
  shows "buckets_disjoint h' \<and> order_exact h'"
proof (cases e)
  case (ActivityTaskScheduled event_id eid)
  with assms show ?thesis
    using scheduled_inv [OF assms(1,2), of eid] by (auto simp: introduces_fresh_def)
next
  case (ActivityTaskCompleted sid r)
  with assms show ?thesis
    by (auto split: option.splits dest: completed_inv [OF assms(1,2)])
next
  case (ActivityTaskFailed sid r)
  with assms show ?thesis
    by (auto split: option.splits dest: failed_inv [OF assms(1,2)])
next
  case (ActivityTaskTimedOut sid)
  with assms show ?thesis
    by (auto split: option.splits dest: timed_out_inv [OF assms(1,2)])
next
  case (ScheduleActivityTaskFailed eid r)
  with assms show ?thesis
    using rejected_inv [OF assms(1,2), of eid r] by (auto simp: introduces_fresh_def)
next
  case (StartChildWorkflowExecutionInitiated wid)
  with assms show ?thesis
    using started_inv [OF assms(1,2), of "subworkflow_call_key wid"]
    by (auto simp: introduces_fresh_def)
next
  case (ChildWorkflowExecutionCompleted wid r)
  with assms show ?thesis by (auto dest: completed_inv [OF assms(1,2)])
next
  case (ChildWorkflowExecutionFailed wid r)
  with assms show ?thesis by (auto dest: failed_inv [OF assms(1,2)])
next
  case (ChildWorkflowExecutionTimedOut wid)
  with assms show ?thesis by (auto dest: timed_out_inv [OF assms(1,2)])
next
  case (StartChildWorkflowExecutionFailed wid r)
  with assms show ?thesis
    using rejected_inv [OF assms(1,2), of "subworkflow_call_key wid" r]
    by (auto simp: introduces_fresh_def)
next
  case (TimerStarted eid)
  with assms obtain k where k: "timer_call_key eid = Inr k"
    by (auto split: sum.splits)
  with TimerStarted assms show ?thesis
    using started_inv [OF assms(1,2), of k] by (auto simp: introduces_fresh_def)
next
  case (TimerFired eid)
  with assms obtain k where k: "timer_call_key eid = Inr k"
    by (auto split: sum.splits)
  with TimerFired assms show ?thesis
    using fired_inv [OF assms(1,2), of eid k] by (auto simp: introduces_fresh_def split: if_splits)
next
  case (WorkflowExecutionStarted a)
  with assms show ?thesis by auto
next
  case (OtherEvent t)
  with assms show ?thesis by auto
qed

lemma finite_step: "buckets_finite h \<Longrightarrow> load_event h e = Inr h' \<Longrightarrow> buckets_finite h'"
  by (cases e) (auto simp: buckets_finite_def finish_defs split: option.splits sum.splits if_splits)

lemma inv_fold:
  "buckets_disjoint h \<Longrightarrow> order_exact h \<Longrightarrow> buckets_finite h \<Longrightarrow> fresh_ids_from h evs \<Longrightarrow>
   load_events_from h evs = Inr h' \<Longrightarrow> buckets_disjoint h' \<and> order_exact h' \<and> buckets_finite h'"
proof (induction evs arbitrary: h)
  case Nil
  then show ?case by simp
next
  case (Cons e es)
  from Cons.prems(5) obtain h1 where h1: "load_event h e = Inr h1"
    and rest: "load_events_from h1 es = Inr h'"
    by (auto split: sum.splits)
  from Cons.prems(4) h1 have fr: "introduces_fresh h e" and frs: "fresh_ids_from h1 es"
    by auto
  from inv_step [OF Cons.prems(1,2) fr h1] finite_step [OF Cons.prems(3) h1]
  show ?case using Cons.IH [OF _ _ _ frs rest] by blast
qed

lemma order_length:
  assumes "buckets_disjoint s" "order_exact s" "buckets_finite s"
  shows "length (order s) + card (null_results s) =
         card (timedout s) + card (dom (results s)) + card (dom (errors s))"
proof -
  have sub: "null_results s \<subseteq> dom (results s)"
    by (auto simp: null_results_def)
  have fin: "finite (timedout s)" "finite (dom (errors s))" "finite (dom (results s))"
    using assms(3) by (auto simp: buckets_finite_def)
  have d: "timedout s \<inter> dom (errors s) = {}"
    "(timedout s \<union> dom (errors s)) \<inter> (dom (results s) - null_results s) = {}"
    using assms(1) by (auto simp: buckets_disjoint_def)
  have dist: "distinct (order s)"
    and seteq: "set (order s) = timedout s \<union> dom (errors s) \<union> (dom (results s) - null_results s)"
    using assms(2) by (auto simp: order_exact_def)
  have "length (order s) = card (set (order s))"
    using dist by (simp add: distinct_card)
  also have "\<dots> = card (timedout s \<union> dom (errors s)) + card (dom (results s) - null_results s)"
    unfolding seteq using fin d(2) by (simp add: card_Un_disjoint)
  also have "\<dots> = card (timedout s) + card (dom (errors s)) + (card (dom (results s)) - card (null_results s))"
    using fin d(1) sub by (simp add: card_Un_disjoint card_Diff_subset finite_subset)
  finally show ?thesis
    using card_mono [OF fin(3) sub] by simp
qed

lemmas load_eval = load_events_def empty_history_def timer_call_key_def endswith_def
  completed_def failed_def timed_out_def rejected_def

subsection \<open>Timer events\<close>

text \<open>
  Claim C3, as amended. A timer is scheduled under the mangled id \<open>timer_key k\<close>, that is
  \<open>k:t\<close>, and the service echoes that id in TimerStarted and TimerFired. On a
  TimerStarted event with timer id \<open>k:t\<close> the fold adds the unmangled call key \<open>k\<close> to
  \<open>running\<close> (while the timer runs the call itself counts as running). On the TimerFired
  event it removes \<open>k\<close> from \<open>running\<close>, raising KeyError when \<open>k\<close> is not there, and
  stores \<open>None\<close> in \<open>results\<close> under the mangled timer id \<open>k:t\<close>; nothing else changes,
  so nothing is appended to \<open>order\<close>. A timer id that does not end with \<open>:t\<close> fails the
  assertion of \<open>timer_call_key\<close>.
\<close>

theorem C3_timer_events:
  "load_event h (TimerStarted (timer_key k)) = Inr (h\<lparr>running := insert k (running h)\<rparr>) \<and>
   (k \<in> running h \<longrightarrow>
      load_event h (TimerFired (timer_key k)) =
        Inr (h\<lparr>running := running h - {k}, results := (results h)(timer_key k \<mapsto> None)\<rparr>)) \<and>
   (k \<notin> running h \<longrightarrow> load_event h (TimerFired (timer_key k)) = Inl KeyError) \<and>
   (\<not> endswith eid '':t'' \<longrightarrow>
      load_event h (TimerStarted eid) = Inl AssertionError \<and>
      load_event h (TimerFired eid) = Inl AssertionError)"
  by (simp add: timer_call_key_bad)

text \<open>The theorem at \<open>k = 0\<close>, with the timer running, not running, and a bad timer id.\<close>

theorem C3_timer_events_witness:
  "''0'' \<in> running (empty_history\<lparr>running := {''0''}\<rparr>) \<and>
   load_event empty_history (TimerStarted ''0:t'') = Inr (empty_history\<lparr>running := {''0''}\<rparr>) \<and>
   load_event (empty_history\<lparr>running := {''0''}\<rparr>) (TimerFired ''0:t'') =
     Inr (empty_history\<lparr>running := {}, results := [''0:t'' \<mapsto> None]\<rparr>) \<and>
   ''0'' \<notin> running empty_history \<and>
   load_event empty_history (TimerFired ''0:t'') = Inl KeyError \<and>
   \<not> endswith ''0'' '':t'' \<and>
   load_event empty_history (TimerStarted ''0'') = Inl AssertionError"
  using C3_timer_events [of "empty_history\<lparr>running := {''0''}\<rparr>" "''0''" "''0''"]
    C3_timer_events [of empty_history "''0''" "''0''"]
  by (simp add: timer_key_def empty_history_def endswith_def)

text \<open>
  Claim C3 as stated fails: after TimerStarted for \<open>0:t\<close> the set \<open>running\<close> is \<open>{0}\<close>, so
  the mangled key \<open>0:t\<close> is not in it; after TimerFired \<open>results\<close> has no entry for the
  unmangled \<open>0\<close>, and has \<open>None\<close> under \<open>0:t\<close>.
\<close>

theorem C3_counterexample:
  "map_sum id running (load_events [TimerStarted ''0:t'']) = Inr {''0''} \<and>
   ''0:t'' \<notin> {''0''} \<and>
   map_sum id (\<lambda>s. (running s, results s ''0'', results s ''0:t'', order s))
     (load_events [TimerStarted ''0:t'', TimerFired ''0:t'']) = Inr ({}, None, Some None, [])"
  by (simp add: load_events_def empty_history_def timer_call_key_def endswith_def)

subsection \<open>Well-formed histories\<close>

text \<open>
  Claim C10. \<open>load_events\<close> raises KeyError exactly on the histories that are not
  well-formed, and it returns a snapshot exactly on the well-formed histories whose timer
  ids pass the assertion of \<open>timer_call_key\<close>. In the state \<open>h\<close> reached after a prefix
  \<open>pre\<close>, \<open>event2call\<close> holds exactly the event ids of the ActivityTaskScheduled events of
  \<open>pre\<close>, and an event that is offending in \<open>h\<close> (an unknown \<open>scheduledEventId\<close>, or a
  call key that is not in \<open>running\<close>) makes \<open>load_events\<close> raise KeyError whatever
  follows it.
\<close>

theorem C10_wellformed_histories:
  "(load_events evs = Inl KeyError \<longleftrightarrow> \<not> wellformed evs) \<and>
   ((\<exists>s. load_events evs = Inr s) \<longleftrightarrow> wellformed evs \<and> list_all timer_id_ok evs) \<and>
   (load_events_from empty_history pre = Inr h \<longrightarrow>
      dom (event2call h) = scheduled_event_ids pre \<and>
      (offending h e \<longrightarrow>
         load_events (pre @ e # post) = Inl KeyError \<and> \<not> wellformed (pre @ e # post)))"
proof (intro conjI impI)
  show k: "load_events evs = Inl KeyError \<longleftrightarrow> \<not> wellformed evs"
    using KeyError_iff [of empty_history evs]
    by (auto simp: load_events_def wellformed_def split: sum.splits)
  show "(\<exists>s. load_events evs = Inr s) \<longleftrightarrow> wellformed evs \<and> list_all timer_id_ok evs"
    using total_from [of empty_history evs] returns_wellformed [of empty_history evs]
    by (auto simp: load_events_def wellformed_def split: sum.splits)
next
  assume pre: "load_events_from empty_history pre = Inr h"
  show "dom (event2call h) = scheduled_event_ids pre"
    using event2call_dom [OF pre] by (simp add: empty_history_def)
  assume off: "offending h e"
  have "load_events_from empty_history (pre @ e # post) = Inl KeyError"
    using pre offending_KeyError [OF off] by (simp add: load_events_from_append)
  then show "load_events (pre @ e # post) = Inl KeyError"
    by (simp add: load_events_def)
  then show "\<not> wellformed (pre @ e # post)"
    using KeyError_iff [of empty_history "pre @ e # post"]
    by (auto simp: load_events_def wellformed_def split: sum.splits)
qed

text \<open>
  A scheduled and completed activity is a well-formed history and folds to a snapshot; a
  completion whose \<open>scheduledEventId\<close> 7 was never recorded raises KeyError.
\<close>

theorem C10_wellformed_histories_witness:
  "wellformed [ActivityTaskScheduled 5 ''0'', ActivityTaskCompleted 5 ''42''] \<and>
   list_all timer_id_ok [ActivityTaskScheduled 5 ''0'', ActivityTaskCompleted 5 ''42''] \<and>
   (\<exists>s. load_events [ActivityTaskScheduled 5 ''0'', ActivityTaskCompleted 5 ''42''] = Inr s) \<and>
   load_events_from empty_history [ActivityTaskScheduled 5 ''0''] =
     Inr (empty_history\<lparr>event2call := [5 \<mapsto> ''0''], running := {''0''}\<rparr>) \<and>
   offending (empty_history\<lparr>event2call := [5 \<mapsto> ''0''], running := {''0''}\<rparr>)
     (ActivityTaskCompleted 7 ''42'') \<and>
   load_events ([ActivityTaskScheduled 5 ''0''] @ ActivityTaskCompleted 7 ''42'' # []) = Inl KeyError \<and>
   \<not> wellformed ([ActivityTaskScheduled 5 ''0''] @ ActivityTaskCompleted 7 ''42'' # [])"
proof -
  let ?S = "ActivityTaskScheduled 5 ''0''"
  let ?h = "empty_history\<lparr>event2call := [5 \<mapsto> ''0''], running := {''0''}\<rparr>"
  have wf: "wellformed [?S, ActivityTaskCompleted 5 ''42'']"
    by (simp add: wellformed_def empty_history_def completed_def)
  have ok: "list_all timer_id_ok [?S, ActivityTaskCompleted 5 ''42'']"
    by simp
  have pre: "load_events_from empty_history [?S] = Inr ?h"
    by (simp add: empty_history_def)
  have off: "offending ?h (ActivityTaskCompleted 7 ''42'')"
    by (simp add: empty_history_def)
  show ?thesis
    using wf ok pre off
      C10_wellformed_histories [of "[?S, ActivityTaskCompleted 5 ''42'']" "[?S]" ?h
        "ActivityTaskCompleted 7 ''42''" "[]"]
    by blast
qed

subsection \<open>The buckets of the snapshot\<close>

text \<open>
  Claim C1, as amended. For every history that \<open>load_events\<close> accepts and in which every
  event introduces a fresh key, the four buckets \<open>running\<close>, \<open>timedout\<close>, the keys of
  \<open>results\<close> and the keys of \<open>errors\<close> are pairwise disjoint; \<open>order\<close> has no
  repetition and holds exactly the keys of \<open>timedout\<close>, of \<open>errors\<close> and of the
  results that are not \<open>None\<close>; the fired timers (the keys of \<open>results\<close> bound to \<open>None\<close>)
  are never in \<open>order\<close>, so the length of \<open>order\<close> is the sum of the three sizes less the
  number of fired timers.
\<close>

theorem C1_buckets_with_fresh_ids:
  assumes "load_events evs = Inr s" and "fresh_ids evs"
  shows "running s \<inter> timedout s = {} \<and> running s \<inter> dom (results s) = {} \<and>
         running s \<inter> dom (errors s) = {} \<and> timedout s \<inter> dom (results s) = {} \<and>
         timedout s \<inter> dom (errors s) = {} \<and> dom (results s) \<inter> dom (errors s) = {} \<and>
         distinct (order s) \<and>
         set (order s) = timedout s \<union> dom (errors s) \<union> (dom (results s) - null_results s) \<and>
         null_results s \<inter> set (order s) = {} \<and>
         length (order s) + card (null_results s) =
           card (timedout s) + card (dom (results s)) + card (dom (errors s))"
proof -
  from assms(1) obtain h where h: "load_events_from empty_history evs = Inr h"
    and s: "s = snapshot.truncate h"
    by (auto simp: load_events_def split: sum.splits)
  have "buckets_disjoint empty_history" "order_exact empty_history" "buckets_finite empty_history"
    by (simp_all add: buckets_disjoint_def order_exact_def buckets_finite_def null_results_def
        empty_history_def)
  from inv_fold [OF this _ h] assms(2)
  have inv: "buckets_disjoint h" "order_exact h" "buckets_finite h"
    by (simp_all add: fresh_ids_def)
  have n: "null_results s = null_results h"
    by (simp add: s null_results_def)
  have "null_results h \<inter> set (order h) = {}"
    using inv(1,2) by (auto simp: order_exact_def buckets_disjoint_def null_results_def)
  then show ?thesis
    using inv(1,2) order_length [OF inv] unfolding n
    by (simp add: s buckets_disjoint_def order_exact_def)
qed

text \<open>
  A history with a timer, a completed activity, a timed-out activity and a rejected one.
\<close>

theorem C1_buckets_with_fresh_ids_witness:
  "fresh_ids [TimerStarted ''0:t'', TimerFired ''0:t'', ActivityTaskScheduled 5 ''0'',
      ActivityTaskCompleted 5 ''42'', ActivityTaskScheduled 7 ''1'', ActivityTaskTimedOut 7,
      ScheduleActivityTaskFailed ''2'' ''cause''] \<and>
   (\<exists>s. load_events [TimerStarted ''0:t'', TimerFired ''0:t'', ActivityTaskScheduled 5 ''0'',
      ActivityTaskCompleted 5 ''42'', ActivityTaskScheduled 7 ''1'', ActivityTaskTimedOut 7,
      ScheduleActivityTaskFailed ''2'' ''cause''] = Inr s \<and>
      order s = [''0'', ''1'', ''2''] \<and> distinct (order s) \<and>
      length (order s) + card (null_results s) =
        card (timedout s) + card (dom (results s)) + card (dom (errors s)))"
proof -
  let ?H = "[TimerStarted ''0:t'', TimerFired ''0:t'', ActivityTaskScheduled 5 ''0'',
      ActivityTaskCompleted 5 ''42'', ActivityTaskScheduled 7 ''1'', ActivityTaskTimedOut 7,
      ScheduleActivityTaskFailed ''2'' ''cause'']"
  have f: "fresh_ids ?H"
    by (simp add: fresh_ids_def introduces_fresh_def fresh_def load_eval)
  have "\<exists>s. load_events ?H = Inr s \<and> order s = [''0'', ''1'', ''2'']"
    by (simp add: load_eval)
  then obtain s where s: "load_events ?H = Inr s" and o: "order s = [''0'', ''1'', ''2'']"
    by blast
  from C1_buckets_with_fresh_ids [OF s f] f s o show ?thesis
    by blast
qed

text \<open>
  Claim C1 as stated fails on the accepted history of a started and fired timer: \<open>0:t\<close> is
  a key of \<open>results\<close>, \<open>order\<close> is empty, and the three sizes add up to 1.
\<close>

theorem C1_counterexample:
  "map_sum id (\<lambda>s. (results s ''0:t'', order s,
       card (timedout s) + card (dom (results s)) + card (dom (errors s))))
     (load_events [TimerStarted ''0:t'', TimerFired ''0:t'']) = Inr (Some None, [], 1)"
  by (simp add: load_eval)

text \<open>
  Without fresh ids the buckets overlap: an activity id that is scheduled, fails, and is
  scheduled and completed again ends in both \<open>errors\<close> and \<open>results\<close>, twice in \<open>order\<close>.
\<close>

lemma reused_id_overlap:
  "map_sum id (\<lambda>s. (results s ''0'', errors s ''0'', order s))
     (load_events [ActivityTaskScheduled 1 ''0'', ActivityTaskFailed 1 ''boom'',
        ActivityTaskScheduled 3 ''0'', ActivityTaskCompleted 3 ''42''])
   = Inr (Some (Some ''42''), Some ''boom'', [''0'', ''0''])"
  by (simp add: load_eval)


section \<open>Properties of the decision runtime\<close>

subsection \<open>The call cursor\<close>

lemma schedule_call_id:
  "wf_call_id (snd (schedule w sp inp retry delay sched)) =
     wf_call_id w + 1 + (if delay > 0 then 1 else 0) + retry"
  by (simp add: schedule_def reserve_call_ids_def split: prod.splits)

lemma wf_step_call_id:
  "wf_call_id (wf_step ser w op) = cursor_after (wf_call_id w) [call_params op]"
proof (cases op)
  case (CallActivity sp inp retry delay)
  then show ?thesis
    using schedule_call_id [of w sp inp retry delay schedule_activity]
    by (simp add: wf_schedule_activity_def)
next
  case (CallWorkflow uuid4 sp inp retry delay)
  then show ?thesis
    using schedule_call_id [of w sp inp retry delay "schedule_workflow uuid4"]
    by (simp add: wf_schedule_workflow_def)
next
  case (Restart args)
  then show ?thesis by (simp add: wf_restart_def split: sum.splits prod.splits)
next
  case Suspend
  then show ?thesis by (simp add: wf_suspend_def split: prod.splits)
next
  case (Fail reason)
  then show ?thesis by (simp add: wf_fail_def split: prod.splits)
next
  case (Finish res)
  then show ?thesis
    by (cases res) (simp_all add: wf_finish_def split: sum.splits prod.splits)
qed

lemma wf_run_call_id:
  "wf_call_id (wf_run ser w ops) = cursor_after (wf_call_id w) (map call_params ops)"
proof (induction ops arbitrary: w)
  case Nil
  then show ?case by simp
next
  case (Cons op ops)
  show ?case
    using Cons.IH [of "wf_step ser w op"] wf_step_call_id [of ser w op]
    by (cases "call_params op") auto
qed

text \<open>
  Claim C2. Whatever \<open>_schedule\<close> returns or raises (a pending timer, a newly started
  timer, a running call, an error, a result, a timeout, a newly scheduled call, or the
  ValueError of \<open>order.index\<close>), it leaves the call cursor at the cursor it found plus
  one, plus one when the delay is positive, plus the retry. So after any sequence of
  operations the cursor is the one the allocation rule gives from the delays and retries of
  the calls made, whatever the snapshot, the specifications and the inputs are; for a
  runtime just created it starts from 0.
\<close>

theorem C2_call_cursor:
  "wf_call_id (snd (schedule w sp inp retry delay sched)) =
     wf_call_id w + 1 + (if delay > 0 then 1 else 0) + retry \<and>
   wf_call_id (wf_run ser w ops) = cursor_after (wf_call_id w) (map call_params ops) \<and>
   wf_call_id (wf_run ser
       (SWFWorkflow l inp0 token running0 timedout0 results0 errors0 order0 sp0 tags) ops) =
     cursor_after 0 (map call_params ops)"
  using schedule_call_id [of w sp inp retry delay sched] wf_run_call_id [of ser w ops]
    wf_run_call_id [of ser "SWFWorkflow l inp0 token running0 timedout0 results0 errors0 order0 sp0 tags" ops]
  by (simp add: SWFWorkflow_def SWFWorkflow_base_def)

lemmas wf_eval = replay_def quiet_client_def SWFWorkflow_def SWFWorkflow_base_def
  SWFScheduler_def schedule_def
  schedule_try_def schedule_result_def search_result_def search_timer_def reserve_call_ids_def
  schedule_activity_def schedule_workflow_def schedule_timer_def upto.simps Let_def
  str_int_def str_nat.simps digit_char_def wf_schedule_activity_def wf_schedule_workflow_def

text \<open>
  A call with retry 2 whose first attempt timed out schedules attempt 1 and leaves the
  cursor at 3; a call with delay 30 whose timer has fired, then a call with retry 2, leave
  it at 5.
\<close>

theorem C2_call_cursor_witness:
  "wf_call_id (snd (schedule (replay [] [0] Map.empty Map.empty [0])
       (ActivitySpec ''A'' ''1'' []) ''[[],{}]'' 2 0 schedule_activity)) = 3 \<and>
   sch_decisions (wf_scheduler (snd (schedule (replay [] [0] Map.empty Map.empty [0])
       (ActivitySpec ''A'' ''1'' []) ''[[],{}]'' 2 0 schedule_activity))) =
     [ScheduleActivityTask ''1'' ''A'' ''1'' [] ''[[],{}]''] \<and>
   wf_call_id (wf_run (\<lambda>v. Inr v) (replay [] [] [0 \<mapsto> None] Map.empty [])
       [CallActivity (ActivitySpec ''A'' ''1'' []) ''[[],{}]'' 0 30,
        CallActivity (ActivitySpec ''B'' ''1'' []) ''[[],{}]'' 2 0]) = 5"
  using C2_call_cursor [of "replay [] [0] Map.empty Map.empty [0]"
       "ActivitySpec ''A'' ''1'' []" "''[[],{}]''" 2 0 schedule_activity "\<lambda>v. Inr v"
       "[CallActivity (ActivitySpec ''A'' ''1'' []) ''[[],{}]'' 0 30,
         CallActivity (ActivitySpec ''B'' ''1'' []) ''[[],{}]'' 2 0]"
       quiet_client "''[[],{}]''" "''token''" "[]" "[]" "[0 \<mapsto> None]" Map.empty "[]"
       "WorkflowSpec ''W'' ''1'' []" None]
  by (simp add: wf_eval)


subsection \<open>The retry scan\<close>

lemma py_index_found:
  "py_index xs x = Inr p \<longleftrightarrow> p < length xs \<and> xs ! p = x \<and> x \<notin> set (take p xs)"
proof (induction xs arbitrary: p)
  case Nil
  then show ?case by simp
next
  case (Cons y ys)
  show ?case
  proof (cases p)
    case 0
    then show ?thesis by (auto split: sum.splits)
  next
    case (Suc q)
    then show ?thesis using Cons.IH [of q] by (auto split: sum.splits)
  qed
qed

lemma py_index_missing: "py_index xs x = Inl e \<longleftrightarrow> e = ValueError \<and> x \<notin> set xs"
  by (induction xs) (auto split: sum.splits)

lemma loop_call_id_irrelevant:
  "search_result_loop (w\<lparr>wf_call_id := x\<rparr>) (c # cs) = search_result_loop w (c # cs)"
  by simp

lemma loop_skip_timedout:
  "set ts \<subseteq> wf_timedout w \<Longrightarrow>
     search_result_loop w (ts @ c # cs) = search_result_loop w (c # cs)"
proof (induction ts arbitrary: w)
  case Nil
  then show ?case by simp
next
  case (Cons t ts)
  have "search_result_loop w ((t # ts) @ c # cs) =
        search_result_loop (w\<lparr>wf_call_id := t\<rparr>) (ts @ c # cs)"
    using Cons.prems by (simp add: Let_def)
  also have "\<dots> = search_result_loop (w\<lparr>wf_call_id := t\<rparr>) (c # cs)"
    using Cons.prems by (intro Cons.IH) simp
  finally show ?case by (simp only: loop_call_id_irrelevant)
qed

lemma loop_all_timedout:
  "set ts \<subseteq> wf_timedout w \<Longrightarrow> ts \<noteq> [] \<Longrightarrow>
     search_result_loop w ts = search_result_loop (w\<lparr>wf_call_id := last ts\<rparr>) []"
proof (induction ts arbitrary: w)
  case Nil
  then show ?case by simp
next
  case (Cons t ts)
  show ?case
  proof (cases "ts = []")
    case True
    with Cons.prems show ?thesis by (simp add: Let_def)
  next
    case False
    have "search_result_loop w (t # ts) = search_result_loop (w\<lparr>wf_call_id := t\<rparr>) ts"
      using Cons.prems by (simp add: Let_def)
    also have "\<dots> = search_result_loop (w\<lparr>wf_call_id := t, wf_call_id := last ts\<rparr>) []"
      using Cons.prems False Cons.IH [of "w\<lparr>wf_call_id := t\<rparr>"] by simp
    finally show ?thesis using False by simp
  qed
qed

text \<open>
  Claim C4. For a retry \<open>r\<close> that is not negative, the scan of the ids from the cursor
  \<open>c\<close> to \<open>c + r\<close> skips the ids in \<open>timedout\<close>. When all of them are there it
  returns TIMEDOUT with the position \<open>order.index(c + r)\<close>, the cursor at \<open>c + r\<close>.
  Otherwise it stops at the first id \<open>j\<close> that is not there, the cursor at \<open>j\<close>:
  RUNNING when \<open>j\<close> is in \<open>running\<close>; else ERROR with the reason \<open>errors[j]\<close> and the
  position \<open>order.index(j)\<close> when \<open>j\<close> is in \<open>errors\<close>; else FOUND with the value
  \<open>results[j]\<close> and the position \<open>order.index(j)\<close> when \<open>j\<close> is in \<open>results\<close>; else
  NOTFOUND. Where \<open>order.index\<close> raises ValueError, so does the scan. The three tests
  are made in this order; on a snapshot whose buckets are disjoint at most one of them
  holds.
\<close>

theorem C4_retry_scan:
  "0 \<le> r \<longrightarrow>
   (set [wf_call_id w..wf_call_id w + r] \<subseteq> wf_timedout w \<longrightarrow>
      search_result w r =
        (case py_index (wf_order w) (wf_call_id w + r) of
           Inl e \<Rightarrow> Inl e
         | Inr p \<Rightarrow> Inr (TIMEDOUT, None, Some p),
         w\<lparr>wf_call_id := wf_call_id w + r\<rparr>)) \<and>
   (wf_call_id w \<le> j \<and> j \<le> wf_call_id w + r \<and>
    set [wf_call_id w..j - 1] \<subseteq> wf_timedout w \<and> j \<notin> wf_timedout w \<longrightarrow>
      snd (search_result w r) = w\<lparr>wf_call_id := j\<rparr> \<and>
      (j \<in> wf_running w \<longrightarrow> fst (search_result w r) = Inr (RUNNING, None, None)) \<and>
      (j \<notin> wf_running w \<and> wf_errors w j = Some reason \<longrightarrow>
         fst (search_result w r) =
           (case py_index (wf_order w) j of
              Inl e \<Rightarrow> Inl e
            | Inr p \<Rightarrow> Inr (ERROR, Some reason, Some p))) \<and>
      (j \<notin> wf_running w \<and> wf_errors w j = None \<and> wf_results w j = Some v \<longrightarrow>
         fst (search_result w r) =
           (case py_index (wf_order w) j of
              Inl e \<Rightarrow> Inl e
            | Inr p \<Rightarrow> Inr (FOUND, v, Some p))) \<and>
      (j \<notin> wf_running w \<and> wf_errors w j = None \<and> wf_results w j = None \<longrightarrow>
         fst (search_result w r) = Inr (NOTFOUND, None, None)))"
proof (intro impI conjI)
  assume r: "0 \<le> r"
  assume all: "set [wf_call_id w..wf_call_id w + r] \<subseteq> wf_timedout w"
  have ne: "[wf_call_id w..wf_call_id w + r] \<noteq> []" using r by simp
  have "last [wf_call_id w..wf_call_id w + r] = wf_call_id w + r"
    using r by (simp add: upto_rec2)
  then show "search_result w r =
        (case py_index (wf_order w) (wf_call_id w + r) of
           Inl e \<Rightarrow> Inl e
         | Inr p \<Rightarrow> Inr (TIMEDOUT, None, Some p),
         w\<lparr>wf_call_id := wf_call_id w + r\<rparr>)"
    using loop_all_timedout [OF all ne]
    by (simp add: search_result_def split: sum.splits)
next
  assume r: "0 \<le> r"
  assume j: "wf_call_id w \<le> j \<and> j \<le> wf_call_id w + r \<and>
    set [wf_call_id w..j - 1] \<subseteq> wf_timedout w \<and> j \<notin> wf_timedout w"
  then have split: "[wf_call_id w..wf_call_id w + r] =
      [wf_call_id w..j - 1] @ j # [j + 1..wf_call_id w + r]"
    using upto_split3 [of "wf_call_id w" j "wf_call_id w + r"] by simp
  have eq: "search_result w r = search_result_loop w (j # [j + 1..wf_call_id w + r])"
    unfolding search_result_def split using j by (intro loop_skip_timedout) simp
  show "snd (search_result w r) = w\<lparr>wf_call_id := j\<rparr>"
    unfolding eq using j by (simp add: Let_def split: option.splits sum.splits)
  show "fst (search_result w r) = Inr (RUNNING, None, None)" if "j \<in> wf_running w"
    unfolding eq using j that by (simp add: Let_def)
  show "fst (search_result w r) =
           (case py_index (wf_order w) j of
              Inl e \<Rightarrow> Inl e
            | Inr p \<Rightarrow> Inr (ERROR, Some reason, Some p))"
    if "j \<notin> wf_running w \<and> wf_errors w j = Some reason"
    unfolding eq using j that by (simp add: Let_def split: sum.splits)
  show "fst (search_result w r) =
           (case py_index (wf_order w) j of
              Inl e \<Rightarrow> Inl e
            | Inr p \<Rightarrow> Inr (FOUND, v, Some p))"
    if "j \<notin> wf_running w \<and> wf_errors w j = None \<and> wf_results w j = Some v"
    unfolding eq using j that by (simp add: Let_def split: sum.splits)
  show "fst (search_result w r) = Inr (NOTFOUND, None, None)"
    if "j \<notin> wf_running w \<and> wf_errors w j = None \<and> wf_results w j = None"
    unfolding eq using j that by (simp add: Let_def)
qed

text \<open>The five outcomes of a scan with retry 2 from cursor 0.\<close>

theorem C4_retry_scan_witness:
  "(0::int) \<le> 2 \<and>
   search_result (replay [] [0, 1, 2] Map.empty Map.empty [1, 0, 2]) 2 =
     (Inr (TIMEDOUT, None, Some 2),
      (replay [] [0, 1, 2] Map.empty Map.empty [1, 0, 2])\<lparr>wf_call_id := 2\<rparr>) \<and>
   fst (search_result (replay [1] [0] Map.empty Map.empty [0]) 2) = Inr (RUNNING, None, None) \<and>
   fst (search_result (replay [] [0] Map.empty [1 \<mapsto> ''boom''] [0, 1]) 2) =
     Inr (ERROR, Some ''boom'', Some 1) \<and>
   fst (search_result (replay [] [0] [1 \<mapsto> Some ''42''] Map.empty [0, 1]) 2) =
     Inr (FOUND, Some ''42'', Some 1) \<and>
   fst (search_result (replay [] [0] Map.empty Map.empty [0]) 2) = Inr (NOTFOUND, None, None)"
proof -
  let ?w1 = "replay [] [0, 1, 2] Map.empty Map.empty [1, 0, 2]"
  let ?w2 = "replay [1] [0] Map.empty Map.empty [0]"
  let ?w3 = "replay [] [0] Map.empty [1 \<mapsto> ''boom''] [0, 1]"
  let ?w4 = "replay [] [0] [1 \<mapsto> Some ''42''] Map.empty [0, 1]"
  let ?w5 = "replay [] [0] Map.empty Map.empty [0]"
  have r: "(0::int) \<le> 2" by simp
  have h1: "set [wf_call_id ?w1..wf_call_id ?w1 + 2] \<subseteq> wf_timedout ?w1"
    by (simp add: wf_eval)
  have p1: "py_index (wf_order ?w1) 2 = Inr 2" "wf_call_id ?w1 + 2 = 2"
    by (simp_all add: wf_eval)
  have c1: "search_result ?w1 2 = (Inr (TIMEDOUT, None, Some 2), ?w1\<lparr>wf_call_id := 2\<rparr>)"
    using C4_retry_scan [of 2 ?w1, THEN mp, OF r, THEN conjunct1, THEN mp, OF h1]
    by (simp only: p1 sum.case)
  have j2: "wf_call_id ?w2 \<le> 1 \<and> 1 \<le> wf_call_id ?w2 + 2 \<and>
      set [wf_call_id ?w2..1 - 1] \<subseteq> wf_timedout ?w2 \<and> 1 \<notin> wf_timedout ?w2"
    "1 \<in> wf_running ?w2"
    by (simp_all add: wf_eval)
  have c2: "fst (search_result ?w2 2) = Inr (RUNNING, None, None)"
    using C4_retry_scan [of 2 ?w2 1, THEN mp, OF r, THEN conjunct2, THEN mp, OF j2(1)] j2(2)
    by blast
  have j3: "wf_call_id ?w3 \<le> 1 \<and> 1 \<le> wf_call_id ?w3 + 2 \<and>
      set [wf_call_id ?w3..1 - 1] \<subseteq> wf_timedout ?w3 \<and> 1 \<notin> wf_timedout ?w3"
    "1 \<notin> wf_running ?w3 \<and> wf_errors ?w3 1 = Some ''boom''"
    "py_index (wf_order ?w3) 1 = Inr 1"
    by (simp_all add: wf_eval)
  have c3: "fst (search_result ?w3 2) = Inr (ERROR, Some ''boom'', Some 1)"
    using C4_retry_scan [of 2 ?w3 1 "''boom''", THEN mp, OF r, THEN conjunct2, THEN mp, OF j3(1),
        THEN conjunct2, THEN conjunct2, THEN conjunct1, THEN mp, OF j3(2)]
    by (simp only: j3(3) sum.case)
  have j4: "wf_call_id ?w4 \<le> 1 \<and> 1 \<le> wf_call_id ?w4 + 2 \<and>
      set [wf_call_id ?w4..1 - 1] \<subseteq> wf_timedout ?w4 \<and> 1 \<notin> wf_timedout ?w4"
    "1 \<notin> wf_running ?w4 \<and> wf_errors ?w4 1 = None \<and> wf_results ?w4 1 = Some (Some ''42'')"
    "py_index (wf_order ?w4) 1 = Inr 1"
    by (simp_all add: wf_eval)
  have c4: "fst (search_result ?w4 2) = Inr (FOUND, Some ''42'', Some 1)"
    using C4_retry_scan [of 2 ?w4 1 _ "Some ''42''", THEN mp, OF r, THEN conjunct2, THEN mp,
        OF j4(1), THEN conjunct2, THEN conjunct2, THEN conjunct2, THEN conjunct1, THEN mp,
        OF j4(2)]
    by (simp only: j4(3) sum.case)
  have j5: "wf_call_id ?w5 \<le> 1 \<and> 1 \<le> wf_call_id ?w5 + 2 \<and>
      set [wf_call_id ?w5..1 - 1] \<subseteq> wf_timedout ?w5 \<and> 1 \<notin> wf_timedout ?w5"
    "1 \<notin> wf_running ?w5 \<and> wf_errors ?w5 1 = None \<and> wf_results ?w5 1 = None"
    by (simp_all add: wf_eval)
  have c5: "fst (search_result ?w5 2) = Inr (NOTFOUND, None, None)"
    using C4_retry_scan [of 2 ?w5 1, THEN mp, OF r, THEN conjunct2, THEN mp, OF j5(1)] j5(2)
    by blast
  show ?thesis using r c1 c2 c3 c4 c5 by blast
qed


section \<open>Properties of the decision buffer\<close>

lemma sent_since_append [simp]:
  "responded l' = responded l @ new \<Longrightarrow> sent_since l l' = map snd new"
  by (simp add: sent_since_def)

lemma spec_schedule_eq: "\<exists>d. spec_schedule sp ds call_id inp = ds @ [d] \<and> scheduling d"
  by (cases sp) auto

lemma spec_restart_eq: "\<exists>d. spec_restart sp [] inp tags = [d] \<and> terminal d"
  by (cases sp) auto

lemma scheduling_not_terminal: "scheduling d \<Longrightarrow> \<not> terminal d"
  by (cases d) auto

lemma sch_inv_init: "sch_inv l (SWFScheduler l token rl)"
  by (simp add: sch_inv_def SWFScheduler_def)

lemma flush_inv:
  assumes "sch_inv l s" "sch_closed s \<or> well_terminated ds"
  shows "sch_inv l (snd (flush (s\<lparr>sch_decisions := ds\<rparr>)))"
  using assms
  by (cases "sch_closed s") (auto simp: sch_inv_def flush_def respond_decision_task_completed_def)

lemma well_terminated_no_terminal: "\<forall>d \<in> set ds. \<not> terminal d \<Longrightarrow> well_terminated ds"
  by (simp add: well_terminated_def)

lemma well_terminated_single: "well_terminated [d]"
  by (simp add: well_terminated_def)

lemma sch_step_inv: "sch_inv l s \<Longrightarrow> sch_inv l (sch_step s op)"
proof (cases op)
  case Flush
  assume i: "sch_inv l s"
  have "sch_closed s \<or> well_terminated (sch_decisions s)"
    using i by (auto simp: sch_inv_def well_terminated_def)
  from flush_inv [OF i this] Flush show ?thesis by simp
next
  case (SchRestart sp inp tags)
  assume i: "sch_inv l s"
  obtain d where "spec_restart sp [] inp tags = [d]" using spec_restart_eq by blast
  then show ?thesis
    using flush_inv [OF i, of "[d]"] SchRestart by (simp add: restart_def well_terminated_single)
next
  case (SchFail reason)
  assume i: "sch_inv l s"
  show ?thesis
    using flush_inv [OF i, of "[FailWorkflowExecution (take 256 reason)]"] SchFail
    by (simp add: fail_def well_terminated_single)
next
  case (SchComplete result)
  assume i: "sch_inv l s"
  show ?thesis
    using flush_inv [OF i, of "[CompleteWorkflowExecution result]"] SchComplete
    by (simp add: complete_def well_terminated_single)
next
  case (ScheduleTimer delay call_id)
  assume i: "sch_inv l s"
  then show ?thesis using ScheduleTimer
    by (cases "sch_closed s") (auto simp: sch_inv_def schedule_timer_def)
next
  case (ScheduleActivity sp call_id inp)
  assume i: "sch_inv l s"
  obtain d where "spec_schedule sp (sch_decisions s) (str_int call_id) inp = sch_decisions s @ [d]"
    "scheduling d" using spec_schedule_eq by blast
  then show ?thesis using i ScheduleActivity scheduling_not_terminal
    by (cases "sch_closed s") (auto simp: sch_inv_def schedule_activity_def)
next
  case (ScheduleWorkflow uuid4 sp call_id inp)
  assume i: "sch_inv l s"
  obtain d where
    "spec_schedule sp (sch_decisions s) (uuid4 @ ''-'' @ str_int call_id) inp = sch_decisions s @ [d]"
    "scheduling d" using spec_schedule_eq by blast
  then show ?thesis using i ScheduleWorkflow scheduling_not_terminal
    by (cases "sch_closed s") (auto simp: sch_inv_def schedule_workflow_def)
qed

lemma sch_run_inv: "sch_inv l s \<Longrightarrow> sch_inv l (sch_run s ops)"
  by (induction ops arbitrary: s) (auto intro: sch_step_inv)

lemma sch_inv_sent:
  "sch_inv l s \<Longrightarrow> length (sch_sent l s) \<le> 1 \<and> (\<forall>r \<in> set (sch_sent l s). well_terminated r)"
  by (auto simp: sch_inv_def sch_sent_def split: if_splits)

lemma sch_closed_step:
  "sch_closed s \<Longrightarrow> sch_closed (sch_step s op) \<and> sch_swf_client (sch_step s op) = sch_swf_client s"
  by (cases op)
    (auto simp: flush_def restart_def fail_def complete_def schedule_timer_def
       schedule_activity_def schedule_workflow_def)

lemma flush_open:
  "\<not> sch_closed s \<Longrightarrow>
     sch_closed (snd (flush s)) \<and> sch_sent (sch_swf_client s) (snd (flush s)) = [sch_decisions s]"
  by (simp add: flush_def respond_decision_task_completed_def sch_sent_def sent_since_def)

lemma ctx_inv_init:
  "ctx_inv l (SWFWorkflowContext l token name version input_data task_list decision_duration
     workflow_duration tags child_policy snap)"
  by (simp add: ctx_inv_def SWFWorkflowContext_def)

lemma ctx_flush_inv:
  assumes "ctx_inv l ctx" "ctx_closed ctx \<or> well_terminated ds"
  shows "ctx_inv l (ctx_flush (ctx\<lparr>ctx_decisions := ds\<rparr>))"
  using assms
  by (cases "ctx_closed ctx")
    (auto simp: ctx_inv_def ctx_flush_def respond_decision_task_completed_def)

lemma ctx_step_inv: "ctx_inv l ctx \<Longrightarrow> ctx_inv l (ctx_step los ctx op)"
proof (cases op)
  case CtxFlush
  assume i: "ctx_inv l ctx"
  have "ctx_closed ctx \<or> well_terminated (ctx_decisions ctx)"
    using i by (auto simp: ctx_inv_def well_terminated_def)
  from ctx_flush_inv [OF i this] CtxFlush show ?thesis by simp
next
  case (CtxFail reason)
  assume i: "ctx_inv l ctx"
  show ?thesis
    using ctx_flush_inv [OF i, of "[FailWorkflowExecution (take 256 reason)]"] CtxFail
    by (simp add: ctx_fail_def well_terminated_single)
next
  case (CtxRestart input_data)
  assume i: "ctx_inv l ctx"
  show ?thesis
  proof (cases "cp_encode (ctx_child_policy ctx)")
    case (Inl e)
    then show ?thesis using i CtxRestart
      by (cases "ctx_closed ctx") (auto simp: ctx_restart_def ctx_inv_def)
  next
    case (Inr cp)
    then show ?thesis
      using CtxRestart ctx_flush_inv [OF i, of "[ContinueAsNewWorkflowExecution
                [str_or_none (ctx_decision_duration ctx), str_or_none (ctx_workflow_duration ctx),
                 str_or_none (ctx_task_list ctx)]
                (take 32768 input_data) (tags_of los (ctx_tags ctx)) cp]"]
      by (simp add: ctx_restart_def well_terminated_single)
  qed
next
  case (CtxFinish result)
  assume i: "ctx_inv l ctx"
  show ?thesis
    using ctx_flush_inv [OF i, of "[CompleteWorkflowExecution (take 32768 result)]"] CtxFinish
    by (simp add: ctx_finish_def well_terminated_single)
next
  case (CtxScheduleTimer call_key delay)
  assume i: "ctx_inv l ctx"
  then show ?thesis using CtxScheduleTimer
    by (cases "ctx_closed ctx") (auto simp: ctx_inv_def ctx_schedule_timer_def)
next
  case (CtxScheduleActivity call_key name version input_data task_list heartbeat
      schedule_to_close schedule_to_start start_to_close)
  assume i: "ctx_inv l ctx"
  then show ?thesis using CtxScheduleActivity
    by (cases "ctx_closed ctx") (auto simp: ctx_inv_def ctx_schedule_activity_def)
next
  case (CtxScheduleWorkflow uuid4 call_key name version input_data task_list
      workflow_duration decision_duration)
  assume i: "ctx_inv l ctx"
  then show ?thesis using CtxScheduleWorkflow
    by (cases "ctx_closed ctx") (auto simp: ctx_inv_def ctx_schedule_workflow_def)
qed

lemma ctx_run_inv: "ctx_inv l ctx \<Longrightarrow> ctx_inv l (ctx_run los ctx ops)"
  by (induction ops arbitrary: ctx) (auto intro: ctx_step_inv)

lemma ctx_inv_sent:
  "ctx_inv l ctx \<Longrightarrow>
     length (ctx_sent l ctx) \<le> 1 \<and> (\<forall>r \<in> set (ctx_sent l ctx). well_terminated r)"
  by (auto simp: ctx_inv_def ctx_sent_def split: if_splits)

lemma ctx_closed_step:
  "ctx_closed ctx \<Longrightarrow>
     ctx_closed (ctx_step los ctx op) \<and> ctx_layer1 (ctx_step los ctx op) = ctx_layer1 ctx"
  by (cases op)
    (auto simp: ctx_flush_def ctx_restart_def ctx_fail_def ctx_finish_def ctx_schedule_timer_def
       ctx_schedule_activity_def ctx_schedule_workflow_def split: sum.splits)

lemma ctx_flush_open:
  "\<not> ctx_closed ctx \<Longrightarrow>
     ctx_closed (ctx_flush ctx) \<and> ctx_sent (ctx_layer1 ctx) (ctx_flush ctx) = [ctx_decisions ctx]"
  by (simp add: ctx_flush_def respond_decision_task_completed_def ctx_sent_def sent_since_def)

lemmas wf_eval2 = replay_def quiet_client_def SWFWorkflow_def SWFWorkflow_base_def
  SWFScheduler_def schedule_def
  schedule_try_def schedule_result_def search_result_def search_timer_def reserve_call_ids_def
  schedule_activity_def schedule_workflow_def schedule_timer_def upto.simps Let_def
  str_int_def str_nat.simps digit_char_def wf_schedule_activity_def wf_schedule_workflow_def
  wf_suspend_def wf_fail_def wf_finish_def wf_restart_def
  flush_def fail_def complete_def restart_def respond_decision_task_completed_def
  sch_sent_def sent_since_def

text \<open>
  Claim C5. Whatever is done to a scheduler (\<open>SWFScheduler\<close>) or to a context
  (\<open>SWFWorkflowContext\<close>) after it is created, it sends at most one response, and a
  response with a terminal decision holds that decision alone. The first flush of an open
  buffer closes it and sends its decisions; on an open buffer \<open>fail\<close>, \<open>complete\<close> (or
  \<open>finish\<close>) and \<open>restart\<close> send the single terminal decision that replaced the
  buffer; once the buffer is closed no operation sends anything and it stays closed. The
  \<open>restart\<close> of a context whose child policy \<open>_cp_encode\<close> refuses raises ValueError
  with the buffer emptied, and sends nothing.
\<close>

theorem C5_single_response:
  "length (sch_sent l (sch_run (SWFScheduler l token rl) ops)) \<le> 1 \<and>
   (\<forall>r \<in> set (sch_sent l (sch_run (SWFScheduler l token rl) ops)). well_terminated r) \<and>
   (\<not> sch_closed s \<longrightarrow>
      sch_closed (snd (flush s)) \<and>
      sch_sent (sch_swf_client s) (snd (flush s)) = [sch_decisions s] \<and>
      sch_sent (sch_swf_client s) (snd (fail s reason)) =
        [[FailWorkflowExecution (take 256 reason)]] \<and>
      sch_sent (sch_swf_client s) (snd (complete s result)) =
        [[CompleteWorkflowExecution result]] \<and>
      sch_sent (sch_swf_client s) (snd (restart s sp inp tags)) = [spec_restart sp [] inp tags]) \<and>
   (sch_closed s \<longrightarrow>
      sch_closed (sch_step s op) \<and> sch_swf_client (sch_step s op) = sch_swf_client s) \<and>
   length (ctx_sent l (ctx_run los (SWFWorkflowContext l token name version input_data task_list
       decision_duration workflow_duration ctags child_policy snap) cops)) \<le> 1 \<and>
   (\<forall>r \<in> set (ctx_sent l (ctx_run los (SWFWorkflowContext l token name version input_data task_list
       decision_duration workflow_duration ctags child_policy snap) cops)). well_terminated r) \<and>
   (\<not> ctx_closed ctx \<longrightarrow>
      ctx_closed (ctx_flush ctx) \<and>
      ctx_sent (ctx_layer1 ctx) (ctx_flush ctx) = [ctx_decisions ctx] \<and>
      ctx_sent (ctx_layer1 ctx) (ctx_fail ctx reason) =
        [[FailWorkflowExecution (take 256 reason)]] \<and>
      ctx_sent (ctx_layer1 ctx) (ctx_finish ctx result) =
        [[CompleteWorkflowExecution (take 32768 result)]] \<and>
      (cp_encode (ctx_child_policy ctx) = Inr cp \<longrightarrow>
         ctx_sent (ctx_layer1 ctx) (snd (ctx_restart los ctx input_data')) =
           [[ContinueAsNewWorkflowExecution
               [str_or_none (ctx_decision_duration ctx), str_or_none (ctx_workflow_duration ctx),
                str_or_none (ctx_task_list ctx)]
               (take 32768 input_data') (tags_of los (ctx_tags ctx)) cp]]) \<and>
      (cp_encode (ctx_child_policy ctx) = Inl e \<longrightarrow>
         ctx_restart los ctx input_data' = (Some e, ctx\<lparr>ctx_decisions := []\<rparr>))) \<and>
   (ctx_closed ctx \<longrightarrow>
      ctx_closed (ctx_step los ctx cop) \<and> ctx_layer1 (ctx_step los ctx cop) = ctx_layer1 ctx)"
proof -
  have a: "length (sch_sent l (sch_run (SWFScheduler l token rl) ops)) \<le> 1 \<and>
     (\<forall>r \<in> set (sch_sent l (sch_run (SWFScheduler l token rl) ops)). well_terminated r)"
    using sch_inv_sent [OF sch_run_inv [OF sch_inv_init]] by blast
  have b: "\<not> sch_closed s \<longrightarrow>
      sch_closed (snd (flush s)) \<and>
      sch_sent (sch_swf_client s) (snd (flush s)) = [sch_decisions s] \<and>
      sch_sent (sch_swf_client s) (snd (fail s reason)) =
        [[FailWorkflowExecution (take 256 reason)]] \<and>
      sch_sent (sch_swf_client s) (snd (complete s result)) =
        [[CompleteWorkflowExecution result]] \<and>
      sch_sent (sch_swf_client s) (snd (restart s sp inp tags)) = [spec_restart sp [] inp tags]"
    by (simp add: flush_def fail_def complete_def restart_def
        respond_decision_task_completed_def sch_sent_def sent_since_def)
  have c: "sch_closed s \<longrightarrow>
      sch_closed (sch_step s op) \<and> sch_swf_client (sch_step s op) = sch_swf_client s"
    using sch_closed_step by blast
  have d: "length (ctx_sent l (ctx_run los (SWFWorkflowContext l token name version input_data task_list
       decision_duration workflow_duration ctags child_policy snap) cops)) \<le> 1 \<and>
   (\<forall>r \<in> set (ctx_sent l (ctx_run los (SWFWorkflowContext l token name version input_data task_list
       decision_duration workflow_duration ctags child_policy snap) cops)). well_terminated r)"
    using ctx_inv_sent [OF ctx_run_inv [OF ctx_inv_init]] by blast
  have e: "\<not> ctx_closed ctx \<longrightarrow>
      ctx_closed (ctx_flush ctx) \<and>
      ctx_sent (ctx_layer1 ctx) (ctx_flush ctx) = [ctx_decisions ctx] \<and>
      ctx_sent (ctx_layer1 ctx) (ctx_fail ctx reason) =
        [[FailWorkflowExecution (take 256 reason)]] \<and>
      ctx_sent (ctx_layer1 ctx) (ctx_finish ctx result) =
        [[CompleteWorkflowExecution (take 32768 result)]] \<and>
      (cp_encode (ctx_child_policy ctx) = Inr cp \<longrightarrow>
         ctx_sent (ctx_layer1 ctx) (snd (ctx_restart los ctx input_data')) =
           [[ContinueAsNewWorkflowExecution
               [str_or_none (ctx_decision_duration ctx), str_or_none (ctx_workflow_duration ctx),
                str_or_none (ctx_task_list ctx)]
               (take 32768 input_data') (tags_of los (ctx_tags ctx)) cp]]) \<and>
      (cp_encode (ctx_child_policy ctx) = Inl e \<longrightarrow>
         ctx_restart los ctx input_data' = (Some e, ctx\<lparr>ctx_decisions := []\<rparr>))"
    by (simp add: ctx_flush_def ctx_fail_def ctx_finish_def ctx_restart_def
        respond_decision_task_completed_def ctx_sent_def sent_since_def)
  have f: "ctx_closed ctx \<longrightarrow>
      ctx_closed (ctx_step los ctx cop) \<and> ctx_layer1 (ctx_step los ctx cop) = ctx_layer1 ctx"
    using ctx_closed_step by blast
  from a b c d e f show ?thesis by blast
qed

text \<open>
  A scheduling decision, then \<open>fail\<close>, a flush and \<open>complete\<close> on a scheduler; a timer,
  then \<open>finish\<close>, a flush and \<open>fail\<close> on a context; a restart of a context without a
  child policy, and of one with a child policy that is not one of the three.
\<close>

theorem C5_single_response_witness:
  "sch_sent quiet_client (sch_run (SWFScheduler quiet_client ''token'' 64)
      [ScheduleActivity (ActivitySpec ''A'' ''1'' []) 0 ''[[],{}]'', SchFail ''boom'', Flush,
       SchComplete ''42'']) = [[FailWorkflowExecution ''boom'']] \<and>
   well_terminated [FailWorkflowExecution ''boom''] \<and>
   \<not> sch_closed (SWFScheduler quiet_client ''token'' 64) \<and>
   sch_closed (snd (flush (SWFScheduler quiet_client ''token'' 64))) \<and>
   sch_swf_client (sch_step (snd (flush (SWFScheduler quiet_client ''token'' 64)))
       (SchComplete ''42'')) =
     sch_swf_client (snd (flush (SWFScheduler quiet_client ''token'' 64))) \<and>
   ctx_sent quiet_client (ctx_run sorted_list_of_set (SWFWorkflowContext quiet_client ''token'' ''W'' ''1'' ''[[],{}]''
       None None None None None (snapshot.truncate empty_history))
      [CtxScheduleTimer ''0'' 30, CtxFinish ''42'', CtxFlush, CtxFail ''late''])
     = [[CompleteWorkflowExecution ''42'']] \<and>
   well_terminated [CompleteWorkflowExecution ''42''] \<and>
   \<not> ctx_closed (SWFWorkflowContext quiet_client ''token'' ''W'' ''1'' ''[[],{}]''
       None None None None None (snapshot.truncate empty_history)) \<and>
   ctx_closed (ctx_flush (SWFWorkflowContext quiet_client ''token'' ''W'' ''1'' ''[[],{}]''
       None None None None None (snapshot.truncate empty_history))) \<and>
   ctx_layer1 (ctx_step sorted_list_of_set (ctx_flush (SWFWorkflowContext quiet_client ''token'' ''W'' ''1''
       ''[[],{}]'' None None None None None (snapshot.truncate empty_history))) (CtxFail ''late'')) =
     ctx_layer1 (ctx_flush (SWFWorkflowContext quiet_client ''token'' ''W'' ''1'' ''[[],{}]''
       None None None None None (snapshot.truncate empty_history))) \<and>
   cp_encode (ctx_child_policy (SWFWorkflowContext quiet_client ''token'' ''W'' ''1'' ''[[],{}]''
       None None None None None (snapshot.truncate empty_history))) = Inr None \<and>
   ctx_sent quiet_client (snd (ctx_restart sorted_list_of_set (SWFWorkflowContext quiet_client ''token'' ''W'' ''1''
       ''[[],{}]'' None None None None None (snapshot.truncate empty_history)) ''next'')) =
     [[ContinueAsNewWorkflowExecution [None, None, None] ''next'' None None]] \<and>
   cp_encode (ctx_child_policy (SWFWorkflowContext quiet_client ''token'' ''W'' ''1'' ''[[],{}]''
       None None None None (Some ''keep'') (snapshot.truncate empty_history))) = Inl ValueError \<and>
   fst (ctx_restart sorted_list_of_set (SWFWorkflowContext quiet_client ''token'' ''W'' ''1''
       ''[[],{}]'' None None None None (Some ''keep'') (snapshot.truncate empty_history)) ''next'') =
     Some ValueError"
proof -
  let ?S = "SWFScheduler quiet_client ''token'' 64"
  let ?ops = "[ScheduleActivity (ActivitySpec ''A'' ''1'' []) 0 ''[[],{}]'', SchFail ''boom'', Flush,
       SchComplete ''42'']"
  let ?C = "SWFWorkflowContext quiet_client ''token'' ''W'' ''1'' ''[[],{}]''
       None None None None None (snapshot.truncate empty_history)"
  let ?cops = "[CtxScheduleTimer ''0'' 30, CtxFinish ''42'', CtxFlush, CtxFail ''late'']"
  note T = C5_single_response [where los = sorted_list_of_set and l = quiet_client and token = "''token''" and rl = 64
      and ops = ?ops and name = "''W''" and version = "''1''" and input_data = "''[[],{}]''"
      and task_list = None and decision_duration = None and workflow_duration = None
      and ctags = None and child_policy = None and snap = "snapshot.truncate empty_history"
      and cops = ?cops]
  have s1: "sch_sent quiet_client (sch_run ?S ?ops) = [[FailWorkflowExecution ''boom'']]"
    by (simp add: wf_eval2)
  have w1: "well_terminated [FailWorkflowExecution ''boom'']"
    using T [THEN conjunct2, THEN conjunct1] unfolding s1 by simp
  have o1: "\<not> sch_closed ?S" by (simp add: SWFScheduler_def)
  have c1: "sch_closed (snd (flush ?S))"
    using C5_single_response [where los = sorted_list_of_set and s = ?S, THEN conjunct2, THEN conjunct2, THEN conjunct1,
        THEN mp, OF o1] by blast
  have k1: "sch_swf_client (sch_step (snd (flush ?S)) (SchComplete ''42'')) =
     sch_swf_client (snd (flush ?S))"
    using C5_single_response [where los = sorted_list_of_set and s = "snd (flush ?S)" and op = "SchComplete ''42''",
        THEN conjunct2, THEN conjunct2, THEN conjunct2, THEN conjunct1, THEN mp, OF c1]
    by blast
  have s2: "ctx_sent quiet_client (ctx_run sorted_list_of_set ?C ?cops) = [[CompleteWorkflowExecution ''42'']]"
    by (simp add: SWFWorkflowContext_def quiet_client_def ctx_schedule_timer_def ctx_finish_def
        ctx_flush_def ctx_fail_def respond_decision_task_completed_def ctx_sent_def
        sent_since_def)
  have w2: "well_terminated [CompleteWorkflowExecution ''42'']"
    using T [THEN conjunct2, THEN conjunct2, THEN conjunct2, THEN conjunct2, THEN conjunct2,
        THEN conjunct1] unfolding s2 by simp
  have o2: "\<not> ctx_closed ?C" by (simp add: SWFWorkflowContext_def)
  have c2: "ctx_closed (ctx_flush ?C)"
    using C5_single_response [where los = sorted_list_of_set and ctx = ?C,
        THEN conjunct2, THEN conjunct2, THEN conjunct2, THEN conjunct2, THEN conjunct2,
        THEN conjunct2, THEN conjunct1, THEN mp, OF o2] by blast
  have k2: "ctx_layer1 (ctx_step sorted_list_of_set (ctx_flush ?C) (CtxFail ''late'')) = ctx_layer1 (ctx_flush ?C)"
    using C5_single_response [where los = sorted_list_of_set and ctx = "ctx_flush ?C" and cop = "CtxFail ''late''",
        THEN conjunct2, THEN conjunct2, THEN conjunct2, THEN conjunct2, THEN conjunct2,
        THEN conjunct2, THEN conjunct2, THEN mp, OF c2] by blast
  let ?D = "SWFWorkflowContext quiet_client ''token'' ''W'' ''1'' ''[[],{}]''
       None None None None (Some ''keep'') (snapshot.truncate empty_history)"
  have cp: "cp_encode (ctx_child_policy ?C) = Inr None"
    by (simp add: SWFWorkflowContext_def cp_encode_def)
  have l: "ctx_layer1 ?C = quiet_client" by (simp add: SWFWorkflowContext_def)
  have "ctx_sent (ctx_layer1 ?C) (snd (ctx_restart sorted_list_of_set ?C ''next'')) =
           [[ContinueAsNewWorkflowExecution
               [str_or_none (ctx_decision_duration ?C), str_or_none (ctx_workflow_duration ?C),
                str_or_none (ctx_task_list ?C)]
               (take 32768 ''next'') (tags_of sorted_list_of_set (ctx_tags ?C)) None]]"
    using C5_single_response [where los = sorted_list_of_set and ctx = ?C and cp = None and input_data' = "''next''",
        THEN conjunct2, THEN conjunct2, THEN conjunct2, THEN conjunct2, THEN conjunct2,
        THEN conjunct2, THEN conjunct1, THEN mp, OF o2] cp by blast
  then have r1: "ctx_sent quiet_client (snd (ctx_restart sorted_list_of_set ?C ''next'')) =
     [[ContinueAsNewWorkflowExecution [None, None, None] ''next'' None None]]"
    unfolding l by (simp add: SWFWorkflowContext_def str_or_none_def tags_of_def)
  have bad: "cp_encode (ctx_child_policy ?D) = Inl ValueError"
    by (simp add: SWFWorkflowContext_def cp_encode_def py_upper_def)
  have oD: "\<not> ctx_closed ?D" by (simp add: SWFWorkflowContext_def)
  have "ctx_restart sorted_list_of_set ?D ''next'' = (Some ValueError, ?D\<lparr>ctx_decisions := []\<rparr>)"
    using C5_single_response [where los = sorted_list_of_set and ctx = ?D and input_data' = "''next''" and e = ValueError,
        THEN conjunct2, THEN conjunct2, THEN conjunct2, THEN conjunct2, THEN conjunct2,
        THEN conjunct2, THEN conjunct1, THEN mp, OF oD] bad by blast
  then have r2: "fst (ctx_restart sorted_list_of_set ?D ''next'') = Some ValueError" by simp
  show ?thesis using s1 w1 o1 c1 k1 s2 w2 o2 c2 k2 cp r1 bad r2 by blast
qed


section \<open>The rate budget\<close>

lemma budget_init: "sch_budget l rl (SWFScheduler l token rl)"
  by (simp add: sch_budget_def SWFScheduler_def sch_sent_def sent_since_def)

lemma flush_budget:
  assumes "sch_inv l s" "sch_budget l rl s"
    "int (length (filter scheduling ds)) \<le> max 0 rl"
  shows "sch_budget l rl (snd (flush (s\<lparr>sch_decisions := ds\<rparr>)))"
  using assms
  by (cases "sch_closed s")
    (auto simp: sch_inv_def sch_budget_def sch_sent_def flush_def
       respond_decision_task_completed_def)

lemma append_budget:
  assumes "sch_budget l rl s" "int (length (sch_decisions s)) < sch_rate_limit s"
  shows "sch_budget l rl (s\<lparr>sch_decisions := sch_decisions s @ [d]\<rparr>)"
proof -
  show ?thesis
    using assms length_filter_le [of scheduling "sch_decisions s"]
    by (auto simp: sch_budget_def sch_sent_def simp del: length_filter_le)
qed

lemma sch_step_budget:
  assumes i: "sch_inv l s" and b: "sch_budget l rl s"
  shows "sch_budget l rl (sch_step s op)"
proof (cases op)
  case Flush
  then show ?thesis
    using flush_budget [OF i b, of "sch_decisions s"] b by (simp add: sch_budget_def)
next
  case (SchRestart sp inp tags)
  obtain d where d: "spec_restart sp [] inp tags = [d]" "terminal d" using spec_restart_eq by blast
  then have "\<not> scheduling d" using scheduling_not_terminal by blast
  then show ?thesis
    using flush_budget [OF i b, of "[d]"] SchRestart d(1)
    by (simp add: restart_def)
next
  case (SchFail reason)
  then show ?thesis
    using flush_budget [OF i b, of "[FailWorkflowExecution (take 256 reason)]"]
    by (simp add: fail_def)
next
  case (SchComplete result)
  then show ?thesis
    using flush_budget [OF i b, of "[CompleteWorkflowExecution result]"]
    by (simp add: complete_def)
next
  case (ScheduleTimer delay call_id)
  then show ?thesis
    using b append_budget [OF b] by (simp add: schedule_timer_def)
next
  case (ScheduleActivity sp call_id inp)
  obtain d where "spec_schedule sp (sch_decisions s) (str_int call_id) inp = sch_decisions s @ [d]"
    using spec_schedule_eq by blast
  then show ?thesis
    using b append_budget [OF b] ScheduleActivity by (simp add: schedule_activity_def)
next
  case (ScheduleWorkflow uuid4 sp call_id inp)
  obtain d where
    "spec_schedule sp (sch_decisions s) (uuid4 @ ''-'' @ str_int call_id) inp = sch_decisions s @ [d]"
    using spec_schedule_eq by blast
  then show ?thesis
    using b append_budget [OF b] ScheduleWorkflow by (simp add: schedule_workflow_def)
qed

lemma sch_run_budget:
  "sch_inv l s \<Longrightarrow> sch_budget l rl s \<Longrightarrow> sch_budget l rl (sch_run s ops)"
  by (induction ops arbitrary: s) (auto intro: sch_step_budget sch_step_inv)

lemma sch_run_append: "sch_run s (xs @ ys) = sch_run (sch_run s xs) ys"
  by (induction xs arbitrary: s) auto

lemma search_result_loop_scheduler:
  "wf_scheduler (snd (search_result_loop w cs)) = wf_scheduler w"
  by (induction cs arbitrary: w) (auto simp: Let_def split: sum.splits option.splits)

lemma search_result_scheduler: "wf_scheduler (snd (search_result w retry)) = wf_scheduler w"
  by (simp add: search_result_def search_result_loop_scheduler)

lemma schedule_result_sch:
  assumes "\<And>s sp c i. \<exists>sops. sched s sp c i = sch_run s sops"
  shows "\<exists>sops. wf_scheduler (snd (schedule_result w sp inp retry sched)) =
                 sch_run (wf_scheduler w) sops"
proof (cases "search_result w retry")
  case (Pair r w1)
  have s1: "wf_scheduler w1 = wf_scheduler w"
    using search_result_scheduler [of w retry] Pair by simp
  show ?thesis
  proof (cases "\<exists>v ord. r = Inr (NOTFOUND, v, ord)")
    case True
    obtain sops where "sched (wf_scheduler w1) sp (wf_call_id w1) inp = sch_run (wf_scheduler w1) sops"
      using assms by blast
    then show ?thesis using Pair True s1
      by (auto simp: schedule_result_def)
  next
    case False
    then have "wf_scheduler (snd (schedule_result w sp inp retry sched)) = wf_scheduler w"
      using Pair s1 by (auto simp: schedule_result_def split: sum.splits prod.splits)
    then show ?thesis using sch_run.simps(1) by metis
  qed
qed

lemma schedule_sch:
  assumes "\<And>s sp c i. \<exists>sops. sched s sp c i = sch_run s sops"
  shows "\<exists>sops. wf_scheduler (snd (schedule w sp inp retry delay sched)) =
                 sch_run (wf_scheduler w) sops"
proof -
  have body: "\<exists>sops. wf_scheduler (snd (schedule_try w sp inp retry delay sched)) =
                 sch_run (wf_scheduler w) sops"
  proof (cases "delay = 0")
    case True
    then show ?thesis using schedule_result_sch [OF assms, of w sp inp retry]
      by (simp add: schedule_try_def)
  next
    case False
    obtain st w1 where t: "search_timer w = (st, w1)" by (cases "search_timer w")
    then have s1: "wf_scheduler w1 = wf_scheduler w"
      by (auto simp: search_timer_def split: if_splits)
    show ?thesis
    proof (cases st)
      case FOUND
      then show ?thesis
        using False t s1 schedule_result_sch [OF assms, of w1 sp inp retry]
        by (simp add: schedule_try_def)
    next
      case NOTFOUND
      have "schedule_timer (wf_scheduler w1) delay (wf_call_id w1) =
            sch_run (wf_scheduler w1) [ScheduleTimer delay (wf_call_id w1)]"
        by simp
      then show ?thesis
        using False t s1 NOTFOUND by (auto simp: schedule_try_def simp del: sch_run.simps)
    next
      case TIMEDOUT
      then have "wf_scheduler (snd (schedule_try w sp inp retry delay sched)) = wf_scheduler w"
        using False t s1 by (simp add: schedule_try_def)
      then show ?thesis using sch_run.simps(1) by metis
    next
      case RUNNING
      then have "wf_scheduler (snd (schedule_try w sp inp retry delay sched)) = wf_scheduler w"
        using False t s1 by (simp add: schedule_try_def)
      then show ?thesis using sch_run.simps(1) by metis
    next
      case ERROR
      then have "wf_scheduler (snd (schedule_try w sp inp retry delay sched)) = wf_scheduler w"
        using False t s1 by (simp add: schedule_try_def)
      then show ?thesis using sch_run.simps(1) by metis
    qed
  qed
  then show ?thesis
    by (simp add: schedule_def reserve_call_ids_def case_prod_beta)
qed

lemma one_op: "sch_step s op = sch_run s [op]"
  by simp

lemma wf_step_sch:
  "\<exists>sops. wf_scheduler (wf_step ser w op) = sch_run (wf_scheduler w) sops"
proof (cases op)
  case (CallActivity sp inp retry delay)
  have "\<And>s sp c i. \<exists>sops. schedule_activity s sp c i = sch_run s sops"
    using one_op [of _ "ScheduleActivity _ _ _"] by (metis sch_step.simps(6))
  from schedule_sch [OF this] CallActivity show ?thesis
    by (simp add: wf_schedule_activity_def)
next
  case (CallWorkflow uuid4 sp inp retry delay)
  have "\<And>s sp c i. \<exists>sops. schedule_workflow uuid4 s sp c i = sch_run s sops"
    using one_op [of _ "ScheduleWorkflow uuid4 _ _ _"] by (metis sch_step.simps(7))
  from schedule_sch [OF this] CallWorkflow show ?thesis
    by (simp add: wf_schedule_workflow_def)
next
  case (Restart args)
  show ?thesis
  proof (cases "ser args")
    case (Inl e)
    then have "wf_scheduler (wf_step ser w op) = sch_run (wf_scheduler w) []"
      using Restart by (simp add: wf_restart_def split: prod.splits)
    then show ?thesis by blast
  next
    case (Inr inp)
    then have "wf_scheduler (wf_step ser w op) =
               sch_run (wf_scheduler w) [SchRestart (wf_spec w) inp (wf_tags w)]"
      using Restart by (simp add: wf_restart_def split: prod.splits)
    then show ?thesis by blast
  qed
next
  case Suspend
  then have "wf_scheduler (wf_step ser w op) = sch_run (wf_scheduler w) [Flush]"
    by (simp add: wf_suspend_def split: prod.splits)
  then show ?thesis by blast
next
  case (Fail reason)
  then have "wf_scheduler (wf_step ser w op) = sch_run (wf_scheduler w) [SchFail reason]"
    by (simp add: wf_fail_def split: prod.splits)
  then show ?thesis by blast
next
  case (Finish res)
  have "wf_scheduler (wf_step ser w op) = sch_run (wf_scheduler w) [] \<or>
        (\<exists>r. wf_scheduler (wf_step ser w op) = sch_run (wf_scheduler w) [SchComplete r]) \<or>
        wf_scheduler (wf_step ser w op) = sch_run (wf_scheduler w) [Flush] \<or>
        (\<exists>e. wf_scheduler (wf_step ser w op) = sch_run (wf_scheduler w) [SchFail e])"
    using Finish
    by (cases res) (auto simp: wf_finish_def case_prod_beta split: sum.splits)
  then show ?thesis by blast
qed

lemma wf_run_sch:
  "\<exists>sops. wf_scheduler (wf_run ser w ops) = sch_run (wf_scheduler w) sops"
proof (induction ops arbitrary: w)
  case Nil
  have "wf_scheduler (wf_run ser w []) = sch_run (wf_scheduler w) []" by simp
  then show ?case by blast
next
  case (Cons op ops)
  obtain a where a: "wf_scheduler (wf_step ser w op) = sch_run (wf_scheduler w) a"
    using wf_step_sch by blast
  obtain b where b: "wf_scheduler (wf_run ser (wf_step ser w op) ops) =
      sch_run (wf_scheduler (wf_step ser w op)) b"
    using Cons.IH by blast
  have "wf_scheduler (wf_run ser w (op # ops)) = sch_run (wf_scheduler w) (a @ b)"
    using a b by (simp add: sch_run_append)
  then show ?case by blast
qed

text \<open>
  Claim C6, as amended. In a decision turn of a runtime created with \<open>running0\<close>, neither
  the buffer nor a response sent holds more than \<open>max 0 (64 - len(running0))\<close> scheduling
  decisions; a scheduling attempt on a buffer whose length has reached the rate limit
  leaves the scheduler as it is, and raises nothing. So when at most 64 calls were running
  at the start of the turn, the scheduling decisions of the response and the running calls
  are at most 64 together.
\<close>

theorem C6_rate_budget:
  "int (length (filter scheduling (sch_decisions (wf_scheduler
      (wf_run ser (SWFWorkflow l inp token running0 timedout0 results0 errors0 order0 sp tags) ops)))))
     \<le> max 0 (64 - int (length running0)) \<and>
   (\<forall>r \<in> set (sch_sent l (wf_scheduler
      (wf_run ser (SWFWorkflow l inp token running0 timedout0 results0 errors0 order0 sp tags) ops))).
      int (length (filter scheduling r)) \<le> max 0 (64 - int (length running0)) \<and>
      (length running0 \<le> 64 \<longrightarrow> length (filter scheduling r) + length running0 \<le> 64)) \<and>
   (\<not> int (length (sch_decisions s)) < sch_rate_limit s \<longrightarrow>
      schedule_timer s delay call_id = s \<and> schedule_activity s sp' call_id inp' = s \<and>
      schedule_workflow uuid4 s sp' call_id inp' = s)"
proof -
  let ?w = "SWFWorkflow l inp token running0 timedout0 results0 errors0 order0 sp tags"
  let ?rl = "64 - int (length running0)"
  have w: "wf_scheduler ?w = SWFScheduler l token ?rl"
    by (simp add: SWFWorkflow_def SWFWorkflow_base_def)
  obtain sops where sops: "wf_scheduler (wf_run ser ?w ops) = sch_run (SWFScheduler l token ?rl) sops"
    using wf_run_sch [of ser ?w ops] w by auto
  have b: "sch_budget l ?rl (wf_scheduler (wf_run ser ?w ops))"
    unfolding sops by (intro sch_run_budget sch_inv_init budget_init)
  have 1: "int (length (filter scheduling (sch_decisions (wf_scheduler (wf_run ser ?w ops)))))
     \<le> max 0 ?rl"
    using b by (simp add: sch_budget_def)
  have 2: "\<forall>r \<in> set (sch_sent l (wf_scheduler (wf_run ser ?w ops))).
      int (length (filter scheduling r)) \<le> max 0 ?rl \<and>
      (length running0 \<le> 64 \<longrightarrow> length (filter scheduling r) + length running0 \<le> 64)"
    using b by (auto simp: sch_budget_def)
  have 3: "\<not> int (length (sch_decisions s)) < sch_rate_limit s \<longrightarrow>
      schedule_timer s delay call_id = s \<and> schedule_activity s sp' call_id inp' = s \<and>
      schedule_workflow uuid4 s sp' call_id inp' = s"
    by (simp add: schedule_timer_def schedule_activity_def schedule_workflow_def)
  from 1 2 3 show ?thesis by blast
qed

text \<open>
  With 63 calls running the budget is 1: the first call is scheduled, the second dropped.
\<close>

theorem C6_rate_budget_witness:
  "sch_sent quiet_client (wf_scheduler (wf_run (\<lambda>v. Inr v) (replay [100..162] [] Map.empty Map.empty [])
      [CallActivity (ActivitySpec ''A'' ''1'' []) ''[[],{}]'' 0 0,
       CallActivity (ActivitySpec ''B'' ''1'' []) ''[[],{}]'' 0 0, Suspend])) =
     [[ScheduleActivityTask ''0'' ''A'' ''1'' [] ''[[],{}]'']] \<and>
   length [100..162::int] \<le> 64 \<and>
   length (filter scheduling [ScheduleActivityTask ''0'' ''A'' ''1'' [] ''[[],{}]'']) +
     length [100..162::int] \<le> 64 \<and>
   \<not> int (length (sch_decisions ((SWFScheduler quiet_client ''token'' 1)
         \<lparr>sch_decisions := [ScheduleActivityTask ''0'' ''A'' ''1'' [] ''[[],{}]'']\<rparr>)))
       < sch_rate_limit ((SWFScheduler quiet_client ''token'' 1)
         \<lparr>sch_decisions := [ScheduleActivityTask ''0'' ''A'' ''1'' [] ''[[],{}]'']\<rparr>) \<and>
   schedule_activity ((SWFScheduler quiet_client ''token'' 1)
         \<lparr>sch_decisions := [ScheduleActivityTask ''0'' ''A'' ''1'' [] ''[[],{}]'']\<rparr>)
       (ActivitySpec ''B'' ''1'' []) 1 ''[[],{}]'' =
     (SWFScheduler quiet_client ''token'' 1)
         \<lparr>sch_decisions := [ScheduleActivityTask ''0'' ''A'' ''1'' [] ''[[],{}]'']\<rparr>"
proof -
  let ?ops = "[CallActivity (ActivitySpec ''A'' ''1'' []) ''[[],{}]'' 0 0,
       CallActivity (ActivitySpec ''B'' ''1'' []) ''[[],{}]'' 0 0, Suspend]"
  let ?S = "(SWFScheduler quiet_client ''token'' 1)
         \<lparr>sch_decisions := [ScheduleActivityTask ''0'' ''A'' ''1'' [] ''[[],{}]'']\<rparr>"
  let ?r = "[ScheduleActivityTask ''0'' ''A'' ''1'' [] ''[[],{}]'']"
  have s: "sch_sent quiet_client (wf_scheduler (wf_run (\<lambda>v. Inr v)
      (SWFWorkflow quiet_client ''[[],{}]'' ''token'' [100..162] [] Map.empty Map.empty []
         (WorkflowSpec ''W'' ''1'' []) None) ?ops)) = [?r]"
    by (simp add: wf_eval2)
  have n: "length [100..162::int] \<le> 64" by simp
  have "length (filter scheduling ?r) + length [100..162::int] \<le> 64"
    using C6_rate_budget [of "\<lambda>v. Inr v" quiet_client "''[[],{}]''" "''token''" "[100..162]" "[]"
        Map.empty Map.empty "[]" "WorkflowSpec ''W'' ''1'' []" None ?ops,
        THEN conjunct2, THEN conjunct1] n
    unfolding s by simp
  moreover have full: "\<not> int (length (sch_decisions ?S)) < sch_rate_limit ?S"
    by (simp add: SWFScheduler_def)
  moreover have "schedule_activity ?S (ActivitySpec ''B'' ''1'' []) 1 ''[[],{}]'' = ?S"
    using C6_rate_budget [of _ _ _ _ _ _ _ _ _ _ _ _ ?S _ 1 "ActivitySpec ''B'' ''1'' []" "''[[],{}]''",
        THEN conjunct2, THEN conjunct2, THEN mp, OF full] by blast
  ultimately show ?thesis using s n by (simp add: replay_def)
qed

text \<open>
  Claim C6 as stated fails in a turn that starts with more than 64 calls running: with 65
  of them the rate limit is -1, nothing is scheduled, and the sum is 65.
\<close>

theorem C6_counterexample:
  "sch_decisions (wf_scheduler (wf_run (\<lambda>v. Inr v)
        (replay [100..164] [] Map.empty Map.empty [])
        [CallActivity (ActivitySpec ''A'' ''1'' []) ''[[],{}]'' 0 0])) = [] \<and>
   length [100..164::int] = 65 \<and>
   \<not> (length (filter scheduling (sch_decisions (wf_scheduler (wf_run (\<lambda>v. Inr v)
        (replay [100..164] [] Map.empty Map.empty [])
        [CallActivity (ActivitySpec ''A'' ''1'' []) ''[[],{}]'' 0 0])))) +
      length [100..164::int] \<le> 64)"
  by (simp add: wf_eval2)




section \<open>Properties of the workflow ids of child workflows\<close>

lemma py_split_nonempty [simp]: "py_split c s \<noteq> []"
  by (induction s) (auto split: list.splits)

lemma py_split_absent: "c \<notin> set s \<Longrightarrow> py_split c s = [s]"
  by (induction s) auto

lemma py_split_last: "c \<notin> set k \<Longrightarrow> last (py_split c (u @ c # k)) = k"
proof (induction u)
  case Nil
  then show ?case by (simp add: py_split_absent)
next
  case (Cons x u)
  show ?case
  proof (cases "x = c")
    case True
    with Cons show ?thesis by simp
  next
    case False
    obtain w ws where ws: "py_split c (u @ c # k) = w # ws"
      by (cases "py_split c (u @ c # k)") auto
    have "ws \<noteq> []"
    proof
      assume "ws = []"
      then have "last (py_split c (u @ c # k)) = w" using ws by simp
      then have wk: "w = k" using Cons by simp
      have "concat (py_split c (u @ c # k)) = w" using ws \<open>ws = []\<close> by simp
      moreover have "length (concat (py_split c s)) + length (py_split c s) = Suc (length s)" for s
        by (induction s) (auto split: list.splits)
      ultimately have "length w + 1 = Suc (length (u @ c # k))"
        using ws \<open>ws = []\<close> by (metis One_nat_def length_Cons list.size(3))
      then show False using wk by simp
    qed
    then show ?thesis using Cons False ws by simp
  qed
qed

lemma subworkflow_call_key_recovers:
  "CHR '':'' \<notin> set call_key \<Longrightarrow> subworkflow_call_key (subworkflow_key uuid4 call_key) = call_key"
  using py_split_last [of "CHR '':''" call_key uuid4]
  by (simp add: subworkflow_call_key_def subworkflow_key_def)

lemma str_nat_digits: "set (str_nat n) \<subseteq> set ''0123456789''"
proof (induction n rule: str_nat.induct)
  case (1 n)
  have d: "digit_char m \<in> set ''0123456789''" if "m < 10" for m
    unfolding digit_char_def using that nth_mem [of m "''0123456789''"] by simp
  show ?case
  proof (cases "n < 10")
    case True
    then show ?thesis using d [of n] by (subst str_nat.simps) simp
  next
    case False
    have "n mod 10 < 10" by simp
    then show ?thesis using False 1 d [of "n mod 10"]
      by (subst str_nat.simps) simp
  qed
qed

lemma str_int_no_colon: "CHR '':'' \<notin> set (str_int i)"
  using str_nat_digits [of "nat i"] str_nat_digits [of "nat (- i)"]
  by (auto simp: str_int_def)

lemma str_int_no_dash: "0 \<le> i \<Longrightarrow> CHR ''-'' \<notin> set (str_int i)"
  using str_nat_digits [of "nat i"] by (auto simp: str_int_def)

lemma rsplit1_last:
  assumes "c \<notin> set k"
  shows "last (py_rsplit1 c (u @ c # k)) = k"
proof -
  have "takeWhile (\<lambda>x. x \<noteq> c) (rev k @ c # rev u) = rev k"
    using takeWhile_append2 [of "rev k" "\<lambda>x. x \<noteq> c" "c # rev u"] assms by auto
  then show ?thesis by (simp add: py_rsplit1_def)
qed

lemma subworkflow_id_recovers:
  "0 \<le> i \<Longrightarrow> subworkflow_id (uuid4 @ ''-'' @ str_int i) = str_int i"
  using rsplit1_last [of "CHR ''-''" "str_int i" uuid4] str_int_no_dash [of i]
  by (simp add: subworkflow_id_def)

text \<open>
  Claim C9, as amended. A child workflow started through
  \<open>SWFWorkflowContext.schedule_workflow\<close> is given the workflowId \<open>u:call_key\<close>, \<open>u\<close>
  being the random token; for a call key that is the decimal string of an integer, and
  for any call key without a colon, \<open>_subworkflow_call_key\<close> returns the call key from
  it, and the history folder keys the child workflow's events by it. A child workflow
  started through \<open>SWFScheduler.schedule_workflow\<close> (within the rate limit) is given the
  workflowId \<open>u-i\<close>, \<open>i\<close> being the call id: for a call id that is not negative the part
  after the last \<open>-\<close>, which \<open>_subworkflow_id\<close> returns, is the call id; the id has no
  colon when the token has none, and then \<open>_subworkflow_call_key\<close> returns all of it.
\<close>

theorem C9_child_workflow_ids:
  "ctx_decisions (ctx_schedule_workflow u ctx call_key name version input_data task_list
       workflow_duration decision_duration) =
     ctx_decisions ctx @
       [StartChildWorkflowExecution name version (subworkflow_key u call_key)
          [str_or_none decision_duration, str_or_none workflow_duration, str_or_none task_list]
          input_data] \<and>
   subworkflow_call_key (subworkflow_key u (str_int i)) = str_int i \<and>
   load_event h (StartChildWorkflowExecutionInitiated (subworkflow_key u (str_int i))) =
     Inr (h\<lparr>running := insert (str_int i) (running h)\<rparr>) \<and>
   (CHR '':'' \<notin> set call_key \<longrightarrow>
      subworkflow_call_key (subworkflow_key u call_key) = call_key) \<and>
   (int (length (sch_decisions s)) < sch_rate_limit s \<longrightarrow>
      sch_decisions (schedule_workflow u s (WorkflowSpec name version opts) i inp) =
        sch_decisions s @
          [StartChildWorkflowExecution name version (u @ ''-'' @ str_int i) opts inp]) \<and>
   (0 \<le> i \<longrightarrow> subworkflow_id (u @ ''-'' @ str_int i) = str_int i) \<and>
   (CHR '':'' \<notin> set u \<longrightarrow>
      subworkflow_call_key (u @ ''-'' @ str_int i) = u @ ''-'' @ str_int i)"
proof -
  have a: "subworkflow_call_key (subworkflow_key u (str_int i)) = str_int i"
    using subworkflow_call_key_recovers [OF str_int_no_colon] .
  have b: "CHR '':'' \<notin> set u \<longrightarrow>
      subworkflow_call_key (u @ ''-'' @ str_int i) = u @ ''-'' @ str_int i"
    using py_split_absent [of "CHR '':''" "u @ ''-'' @ str_int i"] str_int_no_colon [of i]
    by (simp add: subworkflow_call_key_def)
  show ?thesis
    using a b subworkflow_call_key_recovers [of call_key u] subworkflow_id_recovers [of i u]
    by (simp add: ctx_schedule_workflow_def schedule_workflow_def)
qed

text \<open>The theorem at the call id 3 and a token in the format of \<open>uuid4\<close>.\<close>

theorem C9_child_workflow_ids_witness:
  "CHR '':'' \<notin> set ''3'' \<and>
   subworkflow_call_key (subworkflow_key ''6f1c2a34-0b7d-4e1a-9c55-2d0e8a7b1c3f'' ''3'') = ''3'' \<and>
   int (length (sch_decisions (SWFScheduler quiet_client ''token'' 64)))
     < sch_rate_limit (SWFScheduler quiet_client ''token'' 64) \<and>
   sch_decisions (schedule_workflow ''6f1c2a34-0b7d-4e1a-9c55-2d0e8a7b1c3f''
       (SWFScheduler quiet_client ''token'' 64) (WorkflowSpec ''Child'' ''1'' []) 3 ''[[],{}]'') =
     [StartChildWorkflowExecution ''Child'' ''1'' ''6f1c2a34-0b7d-4e1a-9c55-2d0e8a7b1c3f-3'' []
        ''[[],{}]''] \<and>
   (0::int) \<le> 3 \<and>
   subworkflow_id ''6f1c2a34-0b7d-4e1a-9c55-2d0e8a7b1c3f-3'' = ''3'' \<and>
   CHR '':'' \<notin> set ''6f1c2a34-0b7d-4e1a-9c55-2d0e8a7b1c3f'' \<and>
   subworkflow_call_key ''6f1c2a34-0b7d-4e1a-9c55-2d0e8a7b1c3f-3'' =
     ''6f1c2a34-0b7d-4e1a-9c55-2d0e8a7b1c3f-3''"
proof -
  let ?u = "''6f1c2a34-0b7d-4e1a-9c55-2d0e8a7b1c3f''"
  let ?S = "SWFScheduler quiet_client ''token'' 64"
  note T = C9_child_workflow_ids [where u = ?u and call_key = "''3''" and i = 3 and s = ?S
      and name = "''Child''" and version = "''1''" and opts = "[]" and inp = "''[[],{}]''"]
  have s3: "str_int 3 = ''3''" by (simp add: str_int_def str_nat.simps digit_char_def)
  have h1: "CHR '':'' \<notin> set ''3''" by simp
  have h2: "int (length (sch_decisions ?S)) < sch_rate_limit ?S" by (simp add: SWFScheduler_def)
  have h3: "(0::int) \<le> 3" by simp
  have h4: "CHR '':'' \<notin> set ?u" by simp
  have c1: "subworkflow_call_key (subworkflow_key ?u ''3'') = ''3''"
    using T [THEN conjunct2, THEN conjunct2, THEN conjunct2, THEN conjunct1, THEN mp, OF h1] .
  have c2: "sch_decisions (schedule_workflow ?u ?S (WorkflowSpec ''Child'' ''1'' []) 3 ''[[],{}]'') =
     [StartChildWorkflowExecution ''Child'' ''1'' ''6f1c2a34-0b7d-4e1a-9c55-2d0e8a7b1c3f-3'' []
        ''[[],{}]'']"
    using T [THEN conjunct2, THEN conjunct2, THEN conjunct2, THEN conjunct2, THEN conjunct1,
        THEN mp, OF h2]
    by (simp add: s3 SWFScheduler_def)
  have c3: "subworkflow_id ''6f1c2a34-0b7d-4e1a-9c55-2d0e8a7b1c3f-3'' = ''3''"
    using T [THEN conjunct2, THEN conjunct2, THEN conjunct2, THEN conjunct2, THEN conjunct2,
        THEN conjunct1, THEN mp, OF h3]
    by (simp add: s3)
  have c4: "subworkflow_call_key ''6f1c2a34-0b7d-4e1a-9c55-2d0e8a7b1c3f-3'' =
     ''6f1c2a34-0b7d-4e1a-9c55-2d0e8a7b1c3f-3''"
    using T [THEN conjunct2, THEN conjunct2, THEN conjunct2, THEN conjunct2, THEN conjunct2,
        THEN conjunct2, THEN mp, OF h4]
    by (simp add: s3)
  show ?thesis using h1 c1 h2 c2 h3 c3 h4 c4 by blast
qed

text \<open>
  Claim C9 as stated fails for \<open>SWFScheduler.schedule_workflow\<close>: the workflowId of call
  3 has a dash and no colon, \<open>_subworkflow_call_key\<close> does not return \<open>3\<close> from it, and
  the history folder keys the child by the whole workflowId.
\<close>

theorem C9_counterexample:
  "sch_decisions (schedule_workflow ''6f1c2a34-0b7d-4e1a-9c55-2d0e8a7b1c3f''
       (SWFScheduler quiet_client ''token'' 64) (WorkflowSpec ''Child'' ''1'' []) 3 ''[[],{}]'') =
     [StartChildWorkflowExecution ''Child'' ''1'' ''6f1c2a34-0b7d-4e1a-9c55-2d0e8a7b1c3f-3'' []
        ''[[],{}]''] \<and>
   CHR '':'' \<notin> set ''6f1c2a34-0b7d-4e1a-9c55-2d0e8a7b1c3f-3'' \<and>
   subworkflow_call_key ''6f1c2a34-0b7d-4e1a-9c55-2d0e8a7b1c3f-3'' \<noteq> str_int 3 \<and>
   map_sum id running (load_events
       [StartChildWorkflowExecutionInitiated ''6f1c2a34-0b7d-4e1a-9c55-2d0e8a7b1c3f-3'']) =
     Inr {''6f1c2a34-0b7d-4e1a-9c55-2d0e8a7b1c3f-3''}"
  by (simp add: schedule_workflow_def SWFScheduler_def quiet_client_def str_int_def
      str_nat.simps digit_char_def
      subworkflow_call_key_def load_events_def empty_history_def)

section \<open>Serialization failures\<close>

lemma proxy_serialization_failure:
  "(\<not> (delay > 0 \<and> \<not> timer_ready ctx call_key) \<and> ap_serialize_input ap args = Inl e \<longrightarrow>
      activity_proxy_schedule ap ctx call_key delay args = ctx_fail ctx e \<and>
      (\<not> ctx_closed ctx \<longrightarrow>
         ctx_sent (ctx_layer1 ctx) (activity_proxy_schedule ap ctx call_key delay args) =
           [[FailWorkflowExecution (take 256 e)]])) \<and>
   (\<not> (delay > 0 \<and> \<not> timer_ready ctx call_key) \<and> wp_serialize_input wp args' = Inl e \<longrightarrow>
      workflow_proxy_schedule u wp ctx call_key delay args' = ctx_fail ctx e \<and>
      (\<not> ctx_closed ctx \<longrightarrow>
         ctx_sent (ctx_layer1 ctx) (workflow_proxy_schedule u wp ctx call_key delay args') =
           [[FailWorkflowExecution (take 256 e)]]))"
  by (simp add: activity_proxy_schedule_def workflow_proxy_schedule_def ctx_fail_def
      ctx_flush_def respond_decision_task_completed_def ctx_sent_def sent_since_def)

lemma runtime_serialization_failure:
  "(\<not> wf_scheduled w \<and> wf_running w = {} \<and> ser r = Inl (TypeError, m) \<longrightarrow>
      wf_finish ser w (Plain r) = (Inr False, w) \<and>
      wf_finish ser w (Result r) = (Inr False, w)) \<and>
   (ser r = Inl (TypeError, m) \<longrightarrow> wf_restart ser w r = (Inr False, w)) \<and>
   (\<not> wf_scheduled w \<and> wf_running w = {} \<and> ser r = Inl (cls, m) \<and> cls \<noteq> TypeError \<longrightarrow>
      wf_finish ser w (Plain r) = (Inl (cls, m), w) \<and>
      wf_finish ser w (Result r) = (Inl (cls, m), w)) \<and>
   (ser r = Inl (cls, m) \<and> cls \<noteq> TypeError \<longrightarrow> wf_restart ser w r = (Inl (cls, m), w))"
  by (simp add: wf_finish_def wf_restart_def)

lemma Task_call_returns:
  "des (wf_input w) = Inr a \<and> run w a = (Returns res, w1) \<longrightarrow>
      Task_call des run ser w = wf_finish ser w1 res"
  by (simp add: Task_call_def)

lemma Task_call_raises:
  "des (wf_input w) = Inr a \<and> run w a = (Raises cls m, w1) \<longrightarrow>
      Task_call des run ser w = (Inr (fst (wf_fail w1 m)), snd (wf_fail w1 m)) \<and>
      (\<not> sch_closed (wf_scheduler w1) \<longrightarrow>
         sch_sent (sch_swf_client (wf_scheduler w1))
             (wf_scheduler (snd (Task_call des run ser w))) =
           [[FailWorkflowExecution (take 256 m)]])"
  by (simp add: Task_call_def wf_fail_def fail_def flush_def
      respond_decision_task_completed_def sch_sent_def sent_since_def split: prod.splits)

lemma Task_call_restart_raises:
  "des (wf_input w) = Inr a \<and> ser r = Inl (cls, m) \<and> cls \<noteq> TypeError \<and>
    \<not> sch_closed (wf_scheduler w) \<longrightarrow>
      sch_sent (sch_swf_client (wf_scheduler w))
          (wf_scheduler (snd (Task_call des (restart_body ser r) ser' w))) =
        [[FailWorkflowExecution (take 256 m)]]"
  by (simp add: Task_call_def restart_body_def wf_restart_def wf_fail_def fail_def flush_def
      respond_decision_task_completed_def sch_sent_def sent_since_def)

text \<open>
  Claim C8, as amended. When the serialization of the arguments of a call raises in
  \<open>SWFActivityProxy.schedule\<close> or \<open>SWFWorkflowProxy.schedule\<close> (which serialize once
  the call has no delay or its timer has fired), the proxy calls \<open>context.fail\<close>: the
  buffer becomes the single fail decision with the exception's message cut at 256
  characters, and an open context sends it. When the serialization of the workflow's
  return value raises TypeError in \<open>_SWFWorkflow._finish\<close>, or that of the arguments of
  \<open>restart\<close>, the method returns False and the runtime is left as it was: no decision
  is added and none is sent. An exception of another class is not caught by either
  method: it leaves the method, the runtime as it was. \<open>Task.__call__\<close> returns what
  \<open>_finish\<close> returns or raises, so such an exception of \<open>_finish\<close> leaves \<open>__call__\<close>
  too; an exception that leaves the body of the workflow, as one of \<open>restart\<close> that the
  body does not catch, is passed to \<open>_fail\<close>, and an open scheduler sends the single
  fail decision with the exception's message cut at 256 characters.
\<close>

theorem C8_serialization_failure:
  "(\<not> (delay > 0 \<and> \<not> timer_ready ctx call_key) \<and> ap_serialize_input ap args = Inl e \<longrightarrow>
      activity_proxy_schedule ap ctx call_key delay args = ctx_fail ctx e \<and>
      (\<not> ctx_closed ctx \<longrightarrow>
         ctx_sent (ctx_layer1 ctx) (activity_proxy_schedule ap ctx call_key delay args) =
           [[FailWorkflowExecution (take 256 e)]])) \<and>
   (\<not> (delay > 0 \<and> \<not> timer_ready ctx call_key) \<and> wp_serialize_input wp args' = Inl e \<longrightarrow>
      workflow_proxy_schedule u wp ctx call_key delay args' = ctx_fail ctx e \<and>
      (\<not> ctx_closed ctx \<longrightarrow>
         ctx_sent (ctx_layer1 ctx) (workflow_proxy_schedule u wp ctx call_key delay args') =
           [[FailWorkflowExecution (take 256 e)]])) \<and>
   (\<not> wf_scheduled w \<and> wf_running w = {} \<and> ser r = Inl (TypeError, m) \<longrightarrow>
      wf_finish ser w (Plain r) = (Inr False, w) \<and>
      wf_finish ser w (Result r) = (Inr False, w)) \<and>
   (ser r = Inl (TypeError, m) \<longrightarrow> wf_restart ser w r = (Inr False, w)) \<and>
   (\<not> wf_scheduled w \<and> wf_running w = {} \<and> ser r = Inl (cls, m) \<and> cls \<noteq> TypeError \<longrightarrow>
      wf_finish ser w (Plain r) = (Inl (cls, m), w) \<and>
      wf_finish ser w (Result r) = (Inl (cls, m), w)) \<and>
   (ser r = Inl (cls, m) \<and> cls \<noteq> TypeError \<longrightarrow> wf_restart ser w r = (Inl (cls, m), w)) \<and>
   (des (wf_input w) = Inr a \<and> run w a = (Returns res, w1) \<longrightarrow>
      Task_call des run ser w = wf_finish ser w1 res) \<and>
   (des (wf_input w) = Inr a \<and> run w a = (Raises cls m, w1) \<longrightarrow>
      Task_call des run ser w = (Inr (fst (wf_fail w1 m)), snd (wf_fail w1 m)) \<and>
      (\<not> sch_closed (wf_scheduler w1) \<longrightarrow>
         sch_sent (sch_swf_client (wf_scheduler w1))
             (wf_scheduler (snd (Task_call des run ser w))) =
           [[FailWorkflowExecution (take 256 m)]])) \<and>
   (des (wf_input w) = Inr a \<and> ser r = Inl (cls, m) \<and> cls \<noteq> TypeError \<and>
    \<not> sch_closed (wf_scheduler w) \<longrightarrow>
      sch_sent (sch_swf_client (wf_scheduler w))
          (wf_scheduler (snd (Task_call des (restart_body ser r) ser' w))) =
        [[FailWorkflowExecution (take 256 m)]])"
  using proxy_serialization_failure [of delay ctx call_key ap args e wp args' u]
    runtime_serialization_failure [of w ser r m cls]
    Task_call_returns [of des w a run res w1 ser]
    Task_call_raises [of des w a run cls m w1 ser]
    Task_call_restart_raises [of des w a ser r cls m ser']
  by blast

text \<open>
  The theorem at proxies whose serializer raises, on a fresh context, and at a fresh
  runtime: with a serializer that raises TypeError, with one that raises ValueError,
  as \<open>json.dumps\<close> does on a circular value, under a body that returns the value, under
  one that raises, and under one that restarts with the value.
\<close>

theorem C8_serialization_failure_witness:
  "\<not> (0 < (0::int) \<and> \<not> timer_ready (SWFWorkflowContext quiet_client ''token'' ''W'' ''1''
        ''[[],{}]'' None None None None None (snapshot.truncate empty_history)) ''0'') \<and>
   \<not> ctx_closed (SWFWorkflowContext quiet_client ''token'' ''W'' ''1''
        ''[[],{}]'' None None None None None (snapshot.truncate empty_history)) \<and>
   ctx_sent quiet_client (activity_proxy_schedule
       \<lparr>ap_identity = ''a'', ap_name = ''A'', ap_version = ''1'', ap_task_list = None,
        ap_heartbeat = None, ap_schedule_to_close = None, ap_schedule_to_start = None,
        ap_start_to_close = None, ap_retry = (0, 0, 0),
        ap_serialize_input = (\<lambda>x. Inl ''not JSON serializable'')\<rparr>
       (SWFWorkflowContext quiet_client ''token'' ''W'' ''1''
        ''[[],{}]'' None None None None None (snapshot.truncate empty_history)) ''0'' 0 ''object'') =
     [[FailWorkflowExecution ''not JSON serializable'']] \<and>
   ctx_sent quiet_client (workflow_proxy_schedule ''u''
       \<lparr>wp_identity = ''c'', wp_name = ''C'', wp_version = ''1'', wp_task_list = None,
        wp_workflow_duration = None, wp_decision_duration = None, wp_retry = (0, 0, 0),
        wp_serialize_input = (\<lambda>x. Inl ''not JSON serializable'')\<rparr>
       (SWFWorkflowContext quiet_client ''token'' ''W'' ''1''
        ''[[],{}]'' None None None None None (snapshot.truncate empty_history)) ''0'' 0 ''object'') =
     [[FailWorkflowExecution ''not JSON serializable'']] \<and>
   \<not> wf_scheduled (replay [] [] Map.empty Map.empty []) \<and>
   wf_running (replay [] [] Map.empty Map.empty []) = {} \<and>
   \<not> sch_closed (wf_scheduler (replay [] [] Map.empty Map.empty [])) \<and>
   wf_finish (\<lambda>v. Inl (TypeError, ''not JSON serializable''))
       (replay [] [] Map.empty Map.empty []) (Result ''object'') =
     (Inr False, replay [] [] Map.empty Map.empty []) \<and>
   wf_restart (\<lambda>v. Inl (TypeError, ''not JSON serializable''))
       (replay [] [] Map.empty Map.empty []) ''object'' =
     (Inr False, replay [] [] Map.empty Map.empty []) \<and>
   ValueError \<noteq> TypeError \<and>
   wf_finish (\<lambda>v. Inl (ValueError, ''Circular reference detected''))
       (replay [] [] Map.empty Map.empty []) (Plain ''object'') =
     (Inl (ValueError, ''Circular reference detected''), replay [] [] Map.empty Map.empty []) \<and>
   wf_restart (\<lambda>v. Inl (ValueError, ''Circular reference detected''))
       (replay [] [] Map.empty Map.empty []) ''object'' =
     (Inl (ValueError, ''Circular reference detected''), replay [] [] Map.empty Map.empty []) \<and>
   Task_call (\<lambda>i. Inr ()) (\<lambda>w a. (Returns (Plain ''object''), w))
       (\<lambda>v. Inl (ValueError, ''Circular reference detected''))
       (replay [] [] Map.empty Map.empty []) =
     (Inl (ValueError, ''Circular reference detected''), replay [] [] Map.empty Map.empty []) \<and>
   sch_sent quiet_client (wf_scheduler (snd (Task_call (\<lambda>i. Inr ())
       (\<lambda>w a. (Raises KeyError ''missing'', w))
       (\<lambda>v::string. Inl (ValueError, ''Circular reference detected''))
       (replay [] [] Map.empty Map.empty [])))) =
     [[FailWorkflowExecution ''missing'']] \<and>
   sch_sent quiet_client (wf_scheduler (snd (Task_call (\<lambda>i. Inr ())
       (restart_body (\<lambda>v. Inl (ValueError, ''Circular reference detected'')) ''object'')
       (\<lambda>v. Inr v)
       (replay [] [] Map.empty Map.empty [])))) =
     [[FailWorkflowExecution ''Circular reference detected'']]"
proof -
  let ?C = "SWFWorkflowContext quiet_client ''token'' ''W'' ''1''
        ''[[],{}]'' None None None None None (snapshot.truncate empty_history)"
  let ?ap = "\<lparr>ap_identity = ''a'', ap_name = ''A'', ap_version = ''1'', ap_task_list = None,
        ap_heartbeat = None, ap_schedule_to_close = None, ap_schedule_to_start = None,
        ap_start_to_close = None, ap_retry = (0, 0, 0),
        ap_serialize_input = (\<lambda>x::string. Inl ''not JSON serializable'' :: string + string)\<rparr>"
  let ?wp = "\<lparr>wp_identity = ''c'', wp_name = ''C'', wp_version = ''1'', wp_task_list = None,
        wp_workflow_duration = None, wp_decision_duration = None, wp_retry = (0, 0, 0),
        wp_serialize_input = (\<lambda>x::string. Inl ''not JSON serializable'' :: string + string)\<rparr>"
  let ?w = "replay [] [] Map.empty Map.empty []"
  let ?te = "\<lambda>v::string. Inl (TypeError, ''not JSON serializable'') :: exc + string"
  let ?ve = "\<lambda>v::string. Inl (ValueError, ''Circular reference detected'') :: exc + string"
  let ?ok = "\<lambda>v::string. Inr v :: exc + string"
  let ?des = "\<lambda>i::string. Inr () :: exc + unit"
  let ?ret = "\<lambda>(w::workflow) (a::unit). (Returns (Plain ''object''), w)"
  let ?rai = "\<lambda>(w::workflow) (a::unit). (Raises KeyError ''missing'' :: string run_result, w)"
  let ?res = "restart_body ?ve ''object'' :: workflow \<Rightarrow> unit \<Rightarrow> string run_result \<times> workflow"
  note T = C8_serialization_failure [where delay = 0 and ctx = ?C and call_key = "''0''"
      and ap = ?ap and args = "''object''" and e = "''not JSON serializable''"
      and wp = ?wp and args' = "''object''" and u = "''u''" and w = ?w
      and ser = ?te and r = "''object''" and m = "''not JSON serializable''"]
  note V = C8_serialization_failure [where w = ?w and ser = ?ve and r = "''object''"
      and cls = ValueError and m = "''Circular reference detected''"
      and des = ?des and a = "()" and run = ?ret and res = "Plain ''object''" and ?w1.0 = ?w
      and ser' = ?ok]
  note F = C8_serialization_failure [where w = ?w and ser = ?ve
      and cls = KeyError and m = "''missing''"
      and des = ?des and a = "()" and run = ?rai and ?w1.0 = ?w]
  have h1: "\<not> (0 < (0::int) \<and> \<not> timer_ready ?C ''0'')" by simp
  have h2: "\<not> ctx_closed ?C" by (simp add: SWFWorkflowContext_def)
  have l: "ctx_layer1 ?C = quiet_client" by (simp add: SWFWorkflowContext_def)
  have h3: "\<not> wf_scheduled ?w" "wf_running ?w = {}"
    by (simp_all add: replay_def SWFWorkflow_def SWFWorkflow_base_def)
  have h4: "\<not> sch_closed (wf_scheduler ?w)"
    by (simp add: replay_def SWFWorkflow_def SWFWorkflow_base_def SWFScheduler_def)
  have k: "sch_swf_client (wf_scheduler ?w) = quiet_client"
    by (simp add: replay_def SWFWorkflow_def SWFWorkflow_base_def SWFScheduler_def)
  have s1: "ap_serialize_input ?ap ''object'' = Inl ''not JSON serializable''"
    and s2: "wp_serialize_input ?wp ''object'' = Inl ''not JSON serializable''"
    by simp_all
  have t: "take 256 ''not JSON serializable'' = ''not JSON serializable''" by simp
  have t2: "take 256 ''missing'' = ''missing''" by simp
  have t3: "take 256 ''Circular reference detected'' = ''Circular reference detected''" by simp
  have c1: "ctx_sent quiet_client (activity_proxy_schedule ?ap ?C ''0'' 0 ''object'') =
     [[FailWorkflowExecution ''not JSON serializable'']]"
    using T [THEN conjunct1, THEN mp, OF conjI [OF h1 s1], THEN conjunct2, THEN mp, OF h2]
    unfolding l t .
  have c2: "ctx_sent quiet_client (workflow_proxy_schedule ''u'' ?wp ?C ''0'' 0 ''object'') =
     [[FailWorkflowExecution ''not JSON serializable'']]"
    using T [THEN conjunct2, THEN conjunct1, THEN mp, OF conjI [OF h1 s2], THEN conjunct2,
        THEN mp, OF h2]
    unfolding l t .
  have n: "?te ''object'' = Inl (TypeError, ''not JSON serializable'')" by simp
  have c3: "wf_finish ?te ?w (Result ''object'') = (Inr False, ?w)"
    using T [THEN conjunct2, THEN conjunct2, THEN conjunct1, THEN mp,
        OF conjI [OF h3(1) conjI [OF h3(2) n]], THEN conjunct2] .
  have c4: "wf_restart ?te ?w ''object'' = (Inr False, ?w)"
    using T [THEN conjunct2, THEN conjunct2, THEN conjunct2, THEN conjunct1, THEN mp, OF n] .
  have ne: "ValueError \<noteq> TypeError" by simp
  have v: "?ve ''object'' = Inl (ValueError, ''Circular reference detected'')" by simp
  have c5: "wf_finish ?ve ?w (Plain ''object'') =
      (Inl (ValueError, ''Circular reference detected''), ?w)"
    using V [THEN conjunct2, THEN conjunct2, THEN conjunct2, THEN conjunct2, THEN conjunct1,
        THEN mp, OF conjI [OF h3(1) conjI [OF h3(2) conjI [OF v ne]]], THEN conjunct1] .
  have c6: "wf_restart ?ve ?w ''object'' =
      (Inl (ValueError, ''Circular reference detected''), ?w)"
    using V [THEN conjunct2, THEN conjunct2, THEN conjunct2, THEN conjunct2, THEN conjunct2,
        THEN conjunct1, THEN mp, OF conjI [OF v ne]] .
  have d: "?des (wf_input ?w) = Inr ()" by simp
  have r1: "?ret ?w () = (Returns (Plain ''object''), ?w)" by simp
  have r2: "?rai ?w () = (Raises KeyError ''missing'', ?w)" by simp
  have "Task_call ?des ?ret ?ve ?w = wf_finish ?ve ?w (Plain ''object'')"
    using V [THEN conjunct2, THEN conjunct2, THEN conjunct2, THEN conjunct2, THEN conjunct2,
        THEN conjunct2, THEN conjunct1, THEN mp, OF conjI [OF d r1]] .
  then have c7: "Task_call ?des ?ret ?ve ?w =
      (Inl (ValueError, ''Circular reference detected''), ?w)"
    unfolding c5 .
  have c8: "sch_sent quiet_client (wf_scheduler (snd (Task_call ?des ?rai ?ve ?w))) =
      [[FailWorkflowExecution ''missing'']]"
    using F [THEN conjunct2, THEN conjunct2, THEN conjunct2, THEN conjunct2, THEN conjunct2,
        THEN conjunct2, THEN conjunct2, THEN conjunct1, THEN mp, OF conjI [OF d r2],
        THEN conjunct2, THEN mp, OF h4]
    unfolding k t2 .
  have c9: "sch_sent quiet_client (wf_scheduler (snd (Task_call ?des ?res ?ok ?w))) =
      [[FailWorkflowExecution ''Circular reference detected'']]"
    using V [THEN conjunct2, THEN conjunct2, THEN conjunct2, THEN conjunct2, THEN conjunct2,
        THEN conjunct2, THEN conjunct2, THEN conjunct2, THEN mp,
        OF conjI [OF d conjI [OF v conjI [OF ne h4]]]]
    unfolding k t3 .
  show ?thesis
    by (intro conjI; (rule h1 h2 c1 c2 h3 h4 c3 c4 ne c5 c6 c7 c8 c9))
qed

text \<open>
  Claim C8 as stated fails for the return value: \<open>_finish\<close> on a value whose
  serialization raises TypeError returns False, and so does \<open>Task.__call__\<close> on a
  workflow whose body returns that value; the scheduler has no decision and has sent
  nothing.
\<close>

theorem C8_counterexample:
  "wf_finish (\<lambda>v. Inl (TypeError, ''not JSON serializable''))
       (replay [] [] Map.empty Map.empty []) (Plain ''object'') =
     (Inr False, replay [] [] Map.empty Map.empty []) \<and>
   Task_call (\<lambda>i. Inr ()) (\<lambda>w a. (Returns (Plain ''object''), w))
       (\<lambda>v. Inl (TypeError, ''not JSON serializable''))
       (replay [] [] Map.empty Map.empty []) =
     (Inr False, replay [] [] Map.empty Map.empty []) \<and>
   sch_sent quiet_client (wf_scheduler (snd (Task_call (\<lambda>i. Inr ())
       (\<lambda>w a. (Returns (Plain ''object''), w))
       (\<lambda>v. Inl (TypeError, ''not JSON serializable''))
       (replay [] [] Map.empty Map.empty [])))) = [] \<and>
   sch_decisions (wf_scheduler (snd (Task_call (\<lambda>i. Inr ())
       (\<lambda>w a. (Returns (Plain ''object''), w))
       (\<lambda>v. Inl (TypeError, ''not JSON serializable''))
       (replay [] [] Map.empty Map.empty [])))) = []"
  by (simp add: Task_call_def wf_finish_def replay_def SWFWorkflow_def SWFWorkflow_base_def
      SWFScheduler_def sch_sent_def sent_since_def quiet_client_def)

section \<open>Pagination failures\<close>

lemmas poll_eval = poll_next_decision.simps poll_first_page.simps next_event.simps
  load_events_gen.simps poll_response_page_def poll_for_decision_task_def truthy_def
  str_or_none_def failing_client_def started_def empty_history_def eval_nat_numeral

text \<open>
  After \<open>n\<close> failed polls, the loop of \<open>poll_response_page\<close> with \<open>n\<close> rounds left gives
  up with the pagination error: \<open>poll_response_page\<close> makes seven attempts.
\<close>

lemma poll_response_page_loop_exhausted:
  "poll_script l = replicate n SWFResponseError @ rest \<Longrightarrow>
     poll_response_page_loop n l domain task_list token identity =
       Some (Inl PaginationError,
         l\<lparr>poll_script := rest,
           poll_requests := poll_requests l @
             replicate n (domain, task_list, str_or_none identity, Some token)\<rparr>)"
proof (induction n arbitrary: l)
  case 0
  then show ?case by simp
next
  case (Suc n)
  let ?l = "l\<lparr>poll_script := replicate n SWFResponseError @ rest,
      poll_requests := poll_requests l @ [(domain, task_list, str_or_none identity, Some token)]\<rparr>"
  have "poll_for_decision_task l domain task_list (str_or_none identity) (Some token) =
      Some (SWFResponseError, ?l)"
    using Suc.prems by (simp add: poll_for_decision_task_def)
  moreover have "poll_script ?l = replicate n SWFResponseError @ rest" by simp
  ultimately show ?case
    using Suc.IH [of ?l] by (simp add: replicate_append_same)
qed

lemma poll_response_page_exhausted:
  "poll_script l = replicate 7 SWFResponseError @ rest \<Longrightarrow>
     poll_response_page l domain task_list token identity =
       Some (Inl PaginationError,
         l\<lparr>poll_script := rest,
           poll_requests := poll_requests l @
             replicate 7 (domain, task_list, str_or_none identity, Some token)\<rparr>)"
  unfolding poll_response_page_def by (rule poll_response_page_loop_exhausted)

text \<open>
  Claim C7 fails on the code. A worker polls the domain \<open>D\<close> and the task list \<open>T\<close>; the
  seven attempts at the second page fail, and \<open>load_events\<close> raises the pagination error.
  The retry of \<open>poll_next_decision\<close> then polls the domain \<open>T\<close> and the task list \<open>D\<close>, the
  two arguments exchanged. Here the client answers that poll, and the assertion that the
  workflow's task list is the polled one fails.
\<close>

theorem C7_retry_swaps_domain_and_task_list:
  "map_option (\<lambda>(r, l). (r, poll_requests l)) (poll_next_decision failing_client ''D'' ''T'' None) =
     Some (Inl AssertionError,
       [(''D'', ''T'', None, None),
        (''D'', ''T'', None, Some ''page2''), (''D'', ''T'', None, Some ''page2''),
        (''D'', ''T'', None, Some ''page2''), (''D'', ''T'', None, Some ''page2''),
        (''D'', ''T'', None, Some ''page2''), (''D'', ''T'', None, Some ''page2''),
        (''D'', ''T'', None, Some ''page2''),
        (''T'', ''D'', None, None)])"
  by (simp add: poll_eval)


end
